theory Spec2Isabelle
  imports Complex_Main
begin

section \<open>Values, errors and arrays\<close>

text \<open>
  The script under study is \<^verbatim>\<open>Kmeans_clustering.py\<close>: a routine \<^verbatim>\<open>run_Kmeans\<close> and a
  top-level analysis section that crops two rasters, stacks their bands and calls the routine.
  Python exceptions are values of \<open>error\<close>; a computation that may raise returns
  \<open>error + 'a\<close> with \<open>Inl\<close> for the exception.
\<close>

datatype error = ValueError | IndexError | EOFError | LibraryError

definition bindE :: "error + 'a \<Rightarrow> ('a \<Rightarrow> error + 'b) \<Rightarrow> error + 'b" where
  "bindE r f = (case r of Inl e \<Rightarrow> Inl e | Inr x \<Rightarrow> f x)"

text \<open>
  Pixel values are floating point numbers, idealised to exact reals. Input rasters hold
  finite values; the one non-finite value the routine can create by itself is the
  \<^verbatim>\<open>nan\<close> of \<^verbatim>\<open>0/0\<close> in the normalisation, so a float is a real or \<open>NaN\<close>.
\<close>

datatype pyfloat = Fin real | NaN

text \<open>
  A numpy array is its shape and its elements in C (row-major) index order, which is the
  order \<^verbatim>\<open>np.reshape\<close>, \<^verbatim>\<open>np.concatenate\<close> and \<^verbatim>\<open>np.transpose\<close> are defined on.
  The label arrays that scikit-learn returns also carry their dtype, which the routine reads.
\<close>

record 'a ndarray =
  shape :: "nat list"
  data :: "'a list"

record labels = "int ndarray" +
  dtype :: string

definition wf_array :: "('a, 'z) ndarray_scheme \<Rightarrow> bool" where
  "wf_array a = (length (data a) = prod_list (shape a))"

definition shape_at :: "('a, 'z) ndarray_scheme \<Rightarrow> nat \<Rightarrow> error + nat" where
  \<comment> \<open>\<^verbatim>\<open>a.shape[d]\<close>\<close>
  "shape_at a d = (if d < length (shape a) then Inr (shape a ! d) else Inl IndexError)"

definition at2 :: "('a, 'z) ndarray_scheme \<Rightarrow> nat \<Rightarrow> nat \<Rightarrow> error + 'a" where
  \<comment> \<open>\<^verbatim>\<open>a[i, j]\<close> of a 2-D array\<close>
  "at2 a i j =
     (case shape a of
        [n, m] \<Rightarrow> if i < n \<and> j < m then Inr (data a ! (i * m + j)) else Inl IndexError
      | _ \<Rightarrow> Inl IndexError)"

definition at3 :: "('a, 'z) ndarray_scheme \<Rightarrow> nat \<Rightarrow> nat \<Rightarrow> nat \<Rightarrow> error + 'a" where
  \<comment> \<open>\<^verbatim>\<open>a[i, j, k]\<close> of a 3-D array\<close>
  "at3 a i j k =
     (case shape a of
        [n, m, l] \<Rightarrow>
          if i < n \<and> j < m \<and> k < l then Inr (data a ! ((i * m + j) * l + k))
          else Inl IndexError
      | _ \<Rightarrow> Inl IndexError)"

definition np_reshape ::
  "('a, 'z) ndarray_scheme \<Rightarrow> nat list \<Rightarrow> error + ('a, 'z) ndarray_scheme" where
  \<comment> \<open>\<^verbatim>\<open>np.reshape(a, newshape)\<close>: same elements in the same order; the sizes must agree\<close>
  "np_reshape a newshape =
     (if prod_list newshape = length (data a) then Inr (a\<lparr>shape := newshape\<rparr>)
      else Inl ValueError)"

definition np_concatenate0 :: "'a ndarray \<Rightarrow> 'a ndarray \<Rightarrow> error + 'a ndarray" where
  \<comment> \<open>\<^verbatim>\<open>np.concatenate((a, b), axis=0)\<close>: all dimensions but the first must agree\<close>
  "np_concatenate0 a b =
     (case (shape a, shape b) of
        (n # restA, m # restB) \<Rightarrow>
          if restA = restB then Inr \<lparr>shape = (n + m) # restA, data = data a @ data b\<rparr>
          else Inl ValueError
      | _ \<Rightarrow> Inl ValueError)"

definition np_transpose_120 :: "'a ndarray \<Rightarrow> error + 'a ndarray" where
  \<comment> \<open>\<^verbatim>\<open>np.transpose(a, [1,2,0])\<close>: \<open>result[i, j, b] = a[b, i, j]\<close>\<close>
  "np_transpose_120 a =
     (case shape a of
        [n0, n1, n2] \<Rightarrow>
          Inr \<lparr>shape = [n1, n2, n0],
               data = concat (map (\<lambda>i. concat (map (\<lambda>j.
                        map (\<lambda>b. data a ! ((b * n1 + i) * n2 + j)) [0..<n0]) [0..<n2])) [0..<n1])\<rparr>
      | _ \<Rightarrow> Inl ValueError)"


definition row :: "('a, 'z) ndarray_scheme \<Rightarrow> nat \<Rightarrow> 'a list" where
  \<comment> \<open>\<^verbatim>\<open>X[i, :]\<close> of a 2-D array\<close>
  "row X i = (case shape X of [n, m] \<Rightarrow> map (\<lambda>j. data X ! (i * m + j)) [0..<m] | _ \<Rightarrow> [])"

definition column :: "('a, 'z) ndarray_scheme \<Rightarrow> nat \<Rightarrow> 'a list" where
  \<comment> \<open>\<^verbatim>\<open>X[:, j]\<close> of a 2-D array\<close>
  "column X j = (case shape X of [n, m] \<Rightarrow> map (\<lambda>i. data X ! (i * m + j)) [0..<n] | _ \<Rightarrow> [])"

definition apply_along_axis0 :: "('a list \<Rightarrow> 'b list) \<Rightarrow> 'a ndarray \<Rightarrow> error + 'b ndarray" where
  \<comment> \<open>\<^verbatim>\<open>np.apply_along_axis(f, 0, X)\<close> on a 2-D array: the 1-D slices along axis 0 are the
      columns \<^verbatim>\<open>X[:, j]\<close>; each is replaced by \<open>f\<close> of it. numpy refuses an array with no
      column. The routine only calls it on the 2-D pixel matrix.\<close>
  "apply_along_axis0 f X =
     (case shape X of
        [n, m] \<Rightarrow>
          if m = 0 then Inl ValueError
          else Inr \<lparr>shape = [n, m],
                    data = concat (map (\<lambda>i. map (\<lambda>j. f (column X j) ! i) [0..<m]) [0..<n])\<rparr>
      | _ \<Rightarrow> Inl ValueError)"

definition take_rows :: "'a ndarray \<Rightarrow> int list \<Rightarrow> error + 'a ndarray" where
  \<comment> \<open>\<^verbatim>\<open>X[idx, :]\<close> with an integer index array: one row per index, negative indices
      counting from the end, IndexError out of range\<close>
  "take_rows X idx =
     (case shape X of
        [n, m] \<Rightarrow>
          if list_all (\<lambda>i. - int n \<le> i \<and> i < int n) idx
          then Inr \<lparr>shape = [length idx, m],
                    data = concat (map (\<lambda>i. row X (nat (if i < 0 then i + int n else i))) idx)\<rparr>
          else Inl IndexError
      | _ \<Rightarrow> Inl IndexError)"

definition as_float :: "real ndarray \<Rightarrow> pyfloat ndarray" where
  "as_float a = \<lparr>shape = shape a, data = map Fin (data a)\<rparr>"

definition l2_norm :: "pyfloat list \<Rightarrow> pyfloat" where
  \<comment> \<open>the Euclidean norm of a vector of floats, \<open>NaN\<close> as soon as one entry is\<close>
  "l2_norm v =
     (if NaN \<in> set v then NaN
      else Fin (sqrt (sum_list (map (\<lambda>x. case x of Fin r \<Rightarrow> r ^ 2 | NaN \<Rightarrow> 0) v))))"

section \<open>Python built-ins\<close>

definition py_range :: "int \<Rightarrow> int \<Rightarrow> int \<Rightarrow> error + int list" where
  \<comment> \<open>\<^verbatim>\<open>range(start, stop, step)\<close>, as the list of its values\<close>
  "py_range start stop step =
     (if step = 0 then Inl ValueError
      else if 0 < step then
        Inr (map (\<lambda>i. start + int i * step) [0..<nat ((stop - start + step - 1) div step)])
      else
        Inr (map (\<lambda>i. start + int i * step) [0..<nat ((start - stop - step - 1) div (- step))]))"

section \<open>The external libraries\<close>

text \<open>
  The interpreter's \<^verbatim>\<open>int\<close>, numpy's random generator, scikit-learn's PCA, K-means and
  silhouette score are not part of the script. They are parameters of the model: a
  \<open>library\<close> gives the outcome of each call, which may be an exception. Which lines
  \<^verbatim>\<open>int\<close> accepts depends on the interpreter's version and on its Unicode tables; the
  routine only passes the entered line to it, puts the line into the file name and cuts
  the four characters of \<^verbatim>\<open>.tif\<close> off the end of a name, so nothing depends on how the
  characters of a line are represented. \<open>'m\<close> is the type of a fitted K-means model. The
  \<^verbatim>\<open>n_jobs\<close> argument only sets the number of worker processes and is left out.
\<close>

record 'm library =
  py_int :: "string \<Rightarrow> error + int"
    \<comment> \<open>\<^verbatim>\<open>int(s)\<close> on a string\<close>
  randint :: "nat \<Rightarrow> int \<Rightarrow> error + int list"
    \<comment> \<open>\<^verbatim>\<open>np.random.randint(high, size=size)\<close>\<close>
  pca_fit_transform :: "nat \<Rightarrow> pyfloat ndarray \<Rightarrow> error + pyfloat ndarray"
    \<comment> \<open>\<^verbatim>\<open>PCA(n_components=n).fit_transform(X)\<close>\<close>
  fit_predict :: "int \<Rightarrow> nat \<Rightarrow> pyfloat ndarray \<Rightarrow> error + ('m \<times> labels)"
    \<comment> \<open>\<^verbatim>\<open>KMeans(n_clusters, random_state).fit_predict(samples)\<close>: the fitted model and the labels\<close>
  n_clusters_of :: "'m \<Rightarrow> int"
  predict :: "'m \<Rightarrow> pyfloat ndarray \<Rightarrow> error + labels"
    \<comment> \<open>\<^verbatim>\<open>kmeans.predict(X)\<close>\<close>
  silhouette_score :: "pyfloat ndarray \<Rightarrow> labels \<Rightarrow> error + pyfloat"

definition randint_outcome :: "nat \<Rightarrow> int \<Rightarrow> int list \<Rightarrow> bool" where
  \<comment> \<open>\<open>idx\<close> is a possible result of \<^verbatim>\<open>np.random.randint(high, size=size)\<close>: \<open>size\<close> integers
      drawn from \<open>[0, high)\<close>, nothing else being required of them\<close>
  "randint_outcome high sz idx =
     (0 < high \<and> 0 \<le> sz \<and> length idx = nat sz \<and> list_all (\<lambda>i. 0 \<le> i \<and> i < int high) idx)"

definition library_contract :: "'m library \<Rightarrow> bool" where
  \<comment> \<open>What the libraries document about a call that returns: \<^verbatim>\<open>randint\<close> draws from
      \<open>[0, high)\<close>; PCA keeps the number of rows; K-means needs between 1 and
      \<open>n_samples\<close> clusters and labels every row with a cluster index below \<open>n_clusters\<close>;
      the silhouette score needs between 2 and \<open>n_samples - 1\<close> distinct labels.\<close>
  "library_contract lib =
     ((\<forall>high sz idx. randint lib high sz = Inr idx \<longrightarrow> randint_outcome high sz idx) \<and>
      (\<forall>n X Y N B. pca_fit_transform lib n X = Inr Y \<longrightarrow> shape X = [N, B] \<longrightarrow>
           shape Y = [N, n] \<and> wf_array Y) \<and>
      (\<forall>k seed S m L N B. fit_predict lib k seed S = Inr (m, L) \<longrightarrow> shape S = [N, B] \<longrightarrow>
           1 \<le> k \<and> k \<le> int N \<and> n_clusters_of lib m = k \<and> shape L = [N] \<and> wf_array L \<and>
           (\<forall>l \<in> set (data L). 0 \<le> l \<and> l < k)) \<and>
      (\<forall>m X L N B. predict lib m X = Inr L \<longrightarrow> shape X = [N, B] \<longrightarrow>
           shape L = [N] \<and> wf_array L \<and> (\<forall>l \<in> set (data L). 0 \<le> l \<and> l < n_clusters_of lib m)) \<and>
      (\<forall>S L v. silhouette_score lib S L = Inr v \<longrightarrow>
           2 \<le> length (remdups (data L)) \<and> length (remdups (data L)) < length (data L)))"

section \<open>The world: console, disk and module globals\<close>

datatype meta_value = MStr string | MInt int | MFloat real | MAffine "real list" | MNone

record gtiff =
  profile :: "string \<rightharpoonup> meta_value"
  bands :: "nat \<rightharpoonup> labels"

text \<open>
  The log keeps, in order, the library calls the routine makes with their arguments, the
  line it prints for each candidate and the prompt it shows.
\<close>

datatype event =
    KMeansFit int nat "pyfloat ndarray"
  | Silhouette "pyfloat ndarray" labels
  | Printed int pyfloat
  | Prompted
  | Predicted "pyfloat ndarray"

text \<open>
  \<open>meta\<close>, \<open>rows\<close> and \<open>columns\<close> are the module globals of these names: the top-level
  script sets them when it crops the Sentinel-2 raster, and \<^verbatim>\<open>run_Kmeans\<close> reads them
  (and updates \<open>meta\<close> in place).
\<close>

record world =
  trace :: "event list"
  stdin :: "string list"
  disk :: "string \<rightharpoonup> gtiff"
  meta :: "string \<rightharpoonup> meta_value"
  rows :: nat
  columns :: nat

type_synonym 'a prog = "world \<Rightarrow> (error + 'a) \<times> world"

definition returns :: "'a \<Rightarrow> 'a prog" where
  "returns x = (\<lambda>w. (Inr x, w))"

definition lift :: "error + 'a \<Rightarrow> 'a prog" where
  "lift r = (\<lambda>w. (r, w))"

definition reads :: "(world \<Rightarrow> error + 'a) \<Rightarrow> 'a prog" where
  "reads f = (\<lambda>w. (f w, w))"

definition and_then :: "'a prog \<Rightarrow> ('a \<Rightarrow> 'b prog) \<Rightarrow> 'b prog" where
  \<comment> \<open>sequencing: an exception ends the computation and keeps the world reached so far\<close>
  "and_then p f = (\<lambda>w. case p w of (Inl e, w') \<Rightarrow> (Inl e, w') | (Inr x, w') \<Rightarrow> f x w')"

definition emit :: "event \<Rightarrow> unit prog" where
  "emit ev = (\<lambda>w. (Inr (), w\<lparr>trace := trace w @ [ev]\<rparr>))"

definition input_line :: "string prog" where
  \<comment> \<open>\<^verbatim>\<open>input(prompt)\<close>: shows the prompt, then reads one line\<close>
  "input_line =
     and_then (emit Prompted)
       (\<lambda>_ w. case stdin w of [] \<Rightarrow> (Inl EOFError, w)
              | line # rest \<Rightarrow> (Inr line, w\<lparr>stdin := rest\<rparr>))"

definition emitted :: "world \<Rightarrow> world \<Rightarrow> event list" where
  \<comment> \<open>the events logged between two worlds\<close>
  "emitted w w' = drop (length (trace w)) (trace w')"

section \<open>The top-level script: cropping and band stacking\<close>

definition crop_meta ::
  "(string \<rightharpoonup> meta_value) \<Rightarrow> ('a, 'z) ndarray_scheme \<Rightarrow> meta_value \<Rightarrow>
     error + (string \<rightharpoonup> meta_value)" where
  \<comment> \<open>\<^verbatim>\<open>meta = src.meta.copy(); meta.update({"driver": "GTiff", "height": img.shape[1],
      "width": img.shape[2], "transform": transform})\<close>\<close>
  "crop_meta src_meta img transform =
     bindE (shape_at img 1) (\<lambda>h.
     bindE (shape_at img 2) (\<lambda>wd.
     Inr (src_meta(''driver'' \<mapsto> MStr ''GTiff'', ''height'' \<mapsto> MInt (int h),
                   ''width'' \<mapsto> MInt (int wd), ''transform'' \<mapsto> transform))))"

definition crop_S2 ::
  "(string \<rightharpoonup> meta_value) \<Rightarrow> real ndarray \<Rightarrow> meta_value \<Rightarrow> unit prog" where
  \<comment> \<open>the body of the first \<^verbatim>\<open>with rasterio.open(S2)\<close> block, given what
      \<^verbatim>\<open>rasterio.mask.mask\<close> returned: it sets the globals \<open>meta\<close>, \<open>rows\<close>, \<open>columns\<close>\<close>
  "crop_S2 src_meta img transform =
     and_then (lift (crop_meta src_meta img transform)) (\<lambda>m.
     and_then (\<lambda>w. (Inr (), w\<lparr>meta := m\<rparr>)) (\<lambda>_.
       case shape img of
         [nbands, nrows, ncols] \<Rightarrow> (\<lambda>w. (Inr (), w\<lparr>rows := nrows, columns := ncols\<rparr>))
       | _ \<Rightarrow> lift (Inl ValueError)))"

definition take_axis2 :: "'a ndarray \<Rightarrow> nat list \<Rightarrow> error + 'a ndarray" where
  \<comment> \<open>\<^verbatim>\<open>a[:, :, idx]\<close> on a 3-D array, \<open>idx\<close> a list of indices: IndexError when one of them is
      not below the size of the last axis\<close>
  "take_axis2 a idx =
     (case shape a of
        [n0, n1, n2] \<Rightarrow>
          if list_all (\<lambda>t. t < n2) idx
          then Inr \<lparr>shape = [n0, n1, length idx],
                    data = concat (map (\<lambda>i. concat (map (\<lambda>j.
                             map (\<lambda>t. data a ! ((i * n1 + j) * n2 + t)) idx) [0..<n1])) [0..<n0])\<rparr>
          else Inl IndexError
      | _ \<Rightarrow> Inl IndexError)"

definition stack_bands :: "'a ndarray \<Rightarrow> 'a ndarray \<Rightarrow> error + 'a ndarray" where
  \<comment> \<open>\<^verbatim>\<open>raster = np.concatenate((img, img2), axis=0); plot_image(raster[:,:,[8,4,3]]);
      raster = np.transpose(raster, [1,2,0])\<close>. The selection for the preview is made on the
      array of shape (bands, rows, columns), so it picks columns; the plot itself only
      draws.\<close>
  "stack_bands img img2 =
     bindE (np_concatenate0 img img2) (\<lambda>raster.
     bindE (take_axis2 raster [8, 4, 3]) (\<lambda>preview.
     np_transpose_120 raster))"

definition analysis ::
  "(string \<rightharpoonup> meta_value) \<Rightarrow> real ndarray \<Rightarrow> meta_value \<Rightarrow> real ndarray \<Rightarrow> real ndarray prog" where
  \<comment> \<open>cropping the Sentinel-2 raster, then stacking it with the cropped Sentinel-1 raster\<close>
  "analysis src_meta img transform img2 =
     and_then (crop_S2 src_meta img transform) (\<lambda>_. lift (stack_bands img img2))"

section \<open>The clustering routine\<close>

definition reshape_pixels :: "nat \<Rightarrow> nat \<Rightarrow> real ndarray \<Rightarrow> error + real ndarray" where
  \<comment> \<open>\<^verbatim>\<open>X = np.reshape(raster, (rows*columns, raster.shape[2]))\<close>\<close>
  "reshape_pixels nrows ncols raster =
     bindE (shape_at raster 2) (\<lambda>B. np_reshape raster [nrows * ncols, B])"

definition fdiv :: "real \<Rightarrow> real \<Rightarrow> pyfloat" where
  \<comment> \<open>\<^verbatim>\<open>x / s\<close> where \<open>s\<close> is the root of a sum of squares that \<open>x\<close> is part of: in exact
      arithmetic \<open>s = 0\<close> only when \<open>x = 0\<close>, and \<^verbatim>\<open>0/0\<close> is \<^verbatim>\<open>nan\<close>\<close>
  "fdiv x s = (if s = 0 then NaN else Fin (x / s))"

definition norm :: "real list \<Rightarrow> pyfloat list" where
  \<comment> \<open>\<^verbatim>\<open>norm = r / np.sqrt(np.sum((r**2), 0))\<close> on a 1-D array\<close>
  "norm r = (let s = sqrt (sum_list (map (\<lambda>x. x ^ 2) r)) in map (\<lambda>x. fdiv x s) r)"

definition subsample :: "'m library \<Rightarrow> pyfloat ndarray \<Rightarrow> int \<Rightarrow> error + pyfloat ndarray" where
  \<comment> \<open>\<^verbatim>\<open>idx = np.random.randint(X.shape[0], size=numSamples); samples = X[idx, :]\<close>\<close>
  "subsample lib X numSamples =
     bindE (shape_at X 0) (\<lambda>N.
     bindE (randint lib N numSamples) (\<lambda>idx.
     take_rows X idx))"

definition preprocess ::
  "'m library \<Rightarrow> nat \<Rightarrow> nat \<Rightarrow> real ndarray \<Rightarrow> int \<Rightarrow> bool \<Rightarrow> bool \<Rightarrow>
     error + (pyfloat ndarray \<times> pyfloat ndarray)" where
  \<comment> \<open>the routine up to the subsample: the pixel matrix \<open>X\<close> and \<open>samples\<close>\<close>
  "preprocess lib nrows ncols raster numSamples bnorm pca =
     bindE (reshape_pixels nrows ncols raster) (\<lambda>X.
     bindE (if bnorm then apply_along_axis0 norm X else Inr (as_float X)) (\<lambda>X.
     bindE (if pca then bindE (shape_at X 1) (\<lambda>n. pca_fit_transform lib n X) else Inr X) (\<lambda>X.
     bindE (subsample lib X numSamples) (\<lambda>samples.
     Inr (X, samples)))))"

definition call_fit_predict ::
  "'m library \<Rightarrow> int \<Rightarrow> nat \<Rightarrow> pyfloat ndarray \<Rightarrow> ('m \<times> labels) prog" where
  "call_fit_predict lib n_clusters random_state samples =
     and_then (emit (KMeansFit n_clusters random_state samples))
       (\<lambda>_. lift (fit_predict lib n_clusters random_state samples))"

definition call_silhouette :: "'m library \<Rightarrow> pyfloat ndarray \<Rightarrow> labels \<Rightarrow> pyfloat prog" where
  "call_silhouette lib samples cluster_labels =
     and_then (emit (Silhouette samples cluster_labels))
       (\<lambda>_. lift (silhouette_score lib samples cluster_labels))"

definition call_predict :: "'m library \<Rightarrow> 'm \<Rightarrow> pyfloat ndarray \<Rightarrow> labels prog" where
  "call_predict lib kmeans X =
     and_then (emit (Predicted X)) (\<lambda>_. lift (predict lib kmeans X))"

fun sweep :: "'m library \<Rightarrow> pyfloat ndarray \<Rightarrow> int list \<Rightarrow> unit prog" where
  \<comment> \<open>the \<^verbatim>\<open>for n_clusters in range_n_clusters\<close> loop\<close>
  "sweep lib samples [] = returns ()"
| "sweep lib samples (n_clusters # rest) =
     and_then (call_fit_predict lib n_clusters 10 samples) (\<lambda>(clusterer, cluster_labels).
     and_then (call_silhouette lib samples cluster_labels) (\<lambda>silhouette.
     and_then (emit (Printed n_clusters silhouette)) (\<lambda>_.
     sweep lib samples rest)))"

definition select_clusters :: "'m library \<Rightarrow> pyfloat ndarray \<Rightarrow> string prog" where
  \<comment> \<open>the sweep over the candidate cluster counts, then the prompt\<close>
  "select_clusters lib samples =
     and_then (lift (py_range 2 33 2)) (\<lambda>range_n_clusters.
     and_then (sweep lib samples range_n_clusters) (\<lambda>_.
     input_line))"

definition output_name :: "string \<Rightarrow> bool \<Rightarrow> bool \<Rightarrow> string" where
  \<comment> \<open>\<^verbatim>\<open>output[:-4]\<close> drops the last four characters\<close>
  "output_name bestCluster bnorm pca =
     (let output = ''Sentinel_40m_kmeans_'' @ bestCluster @ ''k.tif'';
          output = (if bnorm then take (length output - 4) output @ ''_bnorm.tif'' else output);
          output = (if pca then take (length output - 4) output @ ''_pca.tif'' else output)
      in output)"

definition update_meta :: "labels \<Rightarrow> unit prog" where
  \<comment> \<open>\<^verbatim>\<open>meta.update(dtype=str(predCluster.dtype), count = 1)\<close>\<close>
  "update_meta predCluster =
     (\<lambda>w. (Inr (), w\<lparr>meta := (meta w)(''dtype'' \<mapsto> MStr (dtype predCluster),
                                          ''count'' \<mapsto> MInt 1)\<rparr>))"

definition write_raster :: "string \<Rightarrow> labels \<Rightarrow> unit prog" where
  \<comment> \<open>\<^verbatim>\<open>with rasterio.open(output, 'w', **meta) as dst: dst.write(predCluster, 1)\<close>: the file
      gets the profile \<open>meta\<close> and the array as its band 1. The checks rasterio makes on
      the profile are not modelled.\<close>
  "write_raster output predCluster =
     (\<lambda>w. (Inr (), w\<lparr>disk := (disk w)(output \<mapsto>
                       \<lparr>profile = meta w, bands = [1 \<mapsto> predCluster]\<rparr>)\<rparr>))"

definition final_fit ::
  "'m library \<Rightarrow> pyfloat ndarray \<Rightarrow> pyfloat ndarray \<Rightarrow> string \<Rightarrow> bool \<Rightarrow> bool \<Rightarrow> labels prog" where
  \<comment> \<open>the routine after the prompt: the last fit, the prediction over all pixels, the file\<close>
  "final_fit lib X samples bestCluster bnorm pca =
     and_then (lift (py_int lib bestCluster)) (\<lambda>k.
     and_then (call_fit_predict lib k 123 samples) (\<lambda>(kmeans, cluster_labels).
     and_then (call_silhouette lib samples cluster_labels) (\<lambda>silhouette.
     and_then (call_predict lib kmeans X) (\<lambda>predCluster.
     and_then (reads (\<lambda>w. np_reshape predCluster [rows w, columns w])) (\<lambda>predCluster.
     and_then (update_meta predCluster) (\<lambda>_.
     and_then (write_raster (output_name bestCluster bnorm pca) predCluster) (\<lambda>_.
     returns predCluster)))))))"

definition run_Kmeans ::
  "'m library \<Rightarrow> real ndarray \<Rightarrow> int \<Rightarrow> bool \<Rightarrow> bool \<Rightarrow> labels prog" where
  "run_Kmeans lib raster numSamples bnorm pca =
     and_then (reads (\<lambda>w. preprocess lib (rows w) (columns w) raster numSamples bnorm pca))
       (\<lambda>(X, samples).
     and_then (select_clusters lib samples) (\<lambda>bestCluster.
     final_fit lib X samples bestCluster bnorm pca))"

definition sweep_events ::
  "pyfloat ndarray \<Rightarrow> (int \<times> labels \<times> pyfloat) list \<Rightarrow> event list" where
  \<comment> \<open>the log of a sweep that fitted, scored and printed the candidates of \<open>scored\<close>\<close>
  "sweep_events samples scored =
     concat (map (\<lambda>(k, L, v). [KMeansFit k 10 samples, Silhouette samples L, Printed k v]) scored)"

definition candidate_scored ::
  "'m library \<Rightarrow> pyfloat ndarray \<Rightarrow> int \<times> labels \<times> pyfloat \<Rightarrow> bool" where
  \<comment> \<open>\<open>L\<close> are the labels of the K-means fit with \<open>k\<close> clusters and \<^verbatim>\<open>random_state=10\<close> on
      the samples, and \<open>v\<close> is the silhouette score of the samples under these labels\<close>
  "candidate_scored lib samples =
     (\<lambda>(k, L, v). case fit_predict lib k 10 samples of
                    Inl e \<Rightarrow> False
                  | Inr (clusterer, cluster_labels) \<Rightarrow>
                      cluster_labels = L \<and> silhouette_score lib samples L = Inr v)"

section \<open>A small library and world to run the routine on\<close>

text \<open>
  \<open>stub_int\<close> stands in for the interpreter's \<^verbatim>\<open>int\<close> in the small library. It reads plain
  decimal literals: blanks (tab, line feed, vertical tab, form feed, carriage return,
  space) are dropped at both ends, one sign is allowed, then decimal digits, where single
  underscores may separate digits. It is not \<^verbatim>\<open>int\<close> itself: it refuses every line that
  holds another character, also the blanks and digits beyond ASCII that \<^verbatim>\<open>int\<close> accepts,
  and it puts no limit on the number of digits.
\<close>

definition is_space :: "char \<Rightarrow> bool" where
  "is_space c = (let n = (of_char c :: nat) in (9 \<le> n \<and> n \<le> 13) \<or> n = 32)"

definition is_digit :: "char \<Rightarrow> bool" where
  "is_digit c = (let n = (of_char c :: nat) in 48 \<le> n \<and> n \<le> 57)"

definition digit_val :: "char \<Rightarrow> int" where
  "digit_val c = int (of_char c) - 48"

fun digits_ok :: "string \<Rightarrow> bool" where
  "digits_ok [] = False"
| "digits_ok [c] = is_digit c"
| "digits_ok (c # d # rest) =
     (is_digit c \<and> (if d = CHR ''_'' then digits_ok rest else digits_ok (d # rest)))"

definition strip :: "string \<Rightarrow> string" where
  "strip s = rev (dropWhile is_space (rev (dropWhile is_space s)))"

definition stub_int :: "string \<Rightarrow> error + int" where
  "stub_int s =
     (let t = strip s;
          (neg, body) = (case t of
                           c # r \<Rightarrow> if c = CHR ''-'' then (True, r)
                                    else if c = CHR ''+'' then (False, r) else (False, t)
                         | [] \<Rightarrow> (False, t))
      in if digits_ok body
         then let v = foldl (\<lambda>acc c. 10 * acc + digit_val c) 0 (filter (\<lambda>c. c \<noteq> CHR ''_'') body)
              in Inr (if neg then - v else v)
         else Inl ValueError)"

definition stub_labels :: "int \<Rightarrow> nat \<Rightarrow> labels" where
  "stub_labels k n = \<lparr>shape = [n], data = map (\<lambda>i. int i mod k) [0..<n], dtype = ''int32''\<rparr>"

definition stub_library :: "int library" where
  \<comment> \<open>deterministic stand-ins that meet \<open>library_contract\<close>: row \<open>i\<close> gets label \<open>i mod k\<close>\<close>
  "stub_library =
     \<lparr>py_int = stub_int,
      randint = (\<lambda>high sz. if high = 0 \<or> sz < 0 then Inl ValueError
                    else Inr (map (\<lambda>i. int ((3 * i + 1) mod high)) [0..<nat sz])),
      pca_fit_transform = (\<lambda>n X. case shape X of
                             [N, B] \<Rightarrow> if n = B \<and> B \<le> N \<and> wf_array X then Inr X
                                       else Inl ValueError
                           | _ \<Rightarrow> Inl ValueError),
      fit_predict = (\<lambda>k seed S. case shape S of
                       [n, m] \<Rightarrow> if 1 \<le> k \<and> k \<le> int n then Inr (k, stub_labels k n)
                                 else Inl ValueError
                     | _ \<Rightarrow> Inl ValueError),
      n_clusters_of = (\<lambda>k. k),
      predict = (\<lambda>k X. case shape X of
                   [n, m] \<Rightarrow> if 1 \<le> k then Inr (stub_labels k n) else Inl ValueError
                 | _ \<Rightarrow> Inl ValueError),
      silhouette_score = (\<lambda>S L. let d = length (remdups (data L)) in
                            if 2 \<le> d \<and> d < length (data L) then Inr (Fin 0) else Inl ValueError)\<rparr>"

definition stub_world :: "string list \<Rightarrow> world" where
  "stub_world lines =
     \<lparr>trace = [], stdin = lines, disk = Map.empty,
      meta = [''driver'' \<mapsto> MStr ''GTiff'', ''height'' \<mapsto> MInt 1, ''width'' \<mapsto> MInt 2,
              ''count'' \<mapsto> MInt 1, ''dtype'' \<mapsto> MStr ''float32''],
      rows = 1, columns = 2\<rparr>"

definition stub_raster :: "real ndarray" where
  "stub_raster = \<lparr>shape = [1, 2, 1], data = [3, 4]\<rparr>"

section \<open>Properties of the array operations\<close>

subsection \<open>Indexing into flattened arrays\<close>

lemma length_concat_uniform:
  "(\<And>k. k < n \<Longrightarrow> length (f k) = m) \<Longrightarrow> length (concat (map f [0..<n])) = n * m"
  by (induction n) simp_all

lemma nth_concat_uniform:
  assumes "\<And>k. k < n \<Longrightarrow> length (f k) = m" and "i < n" and "j < m"
  shows "concat (map f [0..<n]) ! (i * m + j) = f i ! j"
  using assms
proof (induction n)
  case 0
  then show ?case by simp
next
  case (Suc n)
  have len: "length (concat (map f [0..<n])) = n * m"
    using Suc.prems(1) by (simp add: length_concat_uniform)
  show ?case
  proof (cases "i < n")
    case True
    have "i * m + j < n * m"
    proof -
      have "i * m + j < i * m + m" using Suc.prems(3) by simp
      also have "\<dots> = Suc i * m" by simp
      also have "\<dots> \<le> n * m" using True by (intro mult_le_mono1) simp
      finally show ?thesis .
    qed
    with True Suc len show ?thesis by (simp add: nth_append)
  next
    case False
    with Suc.prems(2) have "i = n" by simp
    with len Suc.prems(3) show ?thesis by (simp add: nth_append)
  qed
qed

lemma flat_index_bound:
  fixes i j n m :: nat
  assumes "i < n" and "j < m"
  shows "i * m + j < n * m"
proof -
  have "i * m + j < i * m + m" using assms(2) by simp
  also have "\<dots> = Suc i * m" by simp
  also have "\<dots> \<le> n * m" using assms(1) by (intro mult_le_mono1) simp
  finally show ?thesis .
qed

lemma stack_bands_value:
  assumes "shape img = [B2, R, C]" and "shape img2 = [B1, R, C]" and "8 < C"
  shows "stack_bands img img2 =
           Inr \<lparr>shape = [R, C, B2 + B1],
                data = concat (map (\<lambda>i. concat (map (\<lambda>j.
                         map (\<lambda>b. (data img @ data img2) ! ((b * R + i) * C + j)) [0..<B2 + B1])
                         [0..<C])) [0..<R])\<rparr>"
  using assms
  by (simp add: stack_bands_def bindE_def np_concatenate0_def take_axis2_def np_transpose_120_def)

lemma stacked_nth:
  assumes "i < R" and "j < C" and "b < n"
  shows "concat (map (\<lambda>i. concat (map (\<lambda>j. map (\<lambda>b. g b i j) [0..<n]) [0..<C])) [0..<R])
           ! ((i * C + j) * n + b) = g b i j"
proof -
  let ?row = "\<lambda>i. concat (map (\<lambda>j. map (\<lambda>b. g b i j) [0..<n]) [0..<C])"
  have rowlen: "length (?row k) = C * n" for k
    by (rule length_concat_uniform) simp
  have idx: "(i * C + j) * n + b = i * (C * n) + (j * n + b)"
    by (simp add: algebra_simps)
  have inner: "j * n + b < C * n"
    using assms(2,3) by (rule flat_index_bound)
  have "concat (map ?row [0..<R]) ! (i * (C * n) + (j * n + b)) = ?row i ! (j * n + b)"
    using rowlen assms(1) inner by (rule nth_concat_uniform)
  also have "\<dots> = map (\<lambda>b. g b i j) [0..<n] ! b"
    by (rule nth_concat_uniform) (use assms in simp_all)
  also have "\<dots> = g b i j" using assms(3) by simp
  finally show ?thesis unfolding idx .
qed

subsection \<open>Band stacking\<close>

text \<open>
  On a crop of at least nine columns the script stacks as intended: the cropped
  Sentinel-2 array \<open>img\<close> of shape \<open>(B2, R, C)\<close> and the cropped Sentinel-1 array \<open>img2\<close> of
  shape \<open>(B1, R, C)\<close> give a raster of shape \<open>(R, C, B2 + B1)\<close> whose pixel \<open>(i, j)\<close> holds
  the Sentinel-2 bands first and the Sentinel-1 bands after them.
\<close>

lemma stack_bands_layout:
  assumes "shape img = [B2, R, C]" and "wf_array img"
    and "shape img2 = [B1, R, C]" and "wf_array img2" and wide: "8 < C"
  shows "\<exists>raster. stack_bands img img2 = Inr raster \<and> shape raster = [R, C, B2 + B1] \<and>
           wf_array raster \<and>
           (\<forall>i<R. \<forall>j<C.
              (\<forall>b<B2. \<exists>v. at3 img b i j = Inr v \<and> at3 raster i j b = Inr v) \<and>
              (\<forall>b. B2 \<le> b \<and> b < B2 + B1 \<longrightarrow>
                 (\<exists>v. at3 img2 (b - B2) i j = Inr v \<and> at3 raster i j b = Inr v)))"
proof -
  let ?g = "\<lambda>b i j. (data img @ data img2) ! ((b * R + i) * C + j)"
  let ?raster = "\<lparr>shape = [R, C, B2 + B1],
      data = concat (map (\<lambda>i. concat (map (\<lambda>j. map (\<lambda>b. ?g b i j) [0..<B2 + B1]) [0..<C])) [0..<R])\<rparr>"
  have val: "stack_bands img img2 = Inr ?raster"
    using assms(1,3) wide by (rule stack_bands_value)
  have len1: "length (data img) = B2 * R * C"
    using assms(1,2) by (simp add: wf_array_def)
  have rowlen: "\<And>i. length (concat (map (\<lambda>j. map (\<lambda>b. ?g b i j) [0..<B2 + B1]) [0..<C])) = C * (B2 + B1)"
    by (rule length_concat_uniform) simp
  have wf: "wf_array ?raster"
    using length_concat_uniform [of R "\<lambda>i. concat (map (\<lambda>j. map (\<lambda>b. ?g b i j) [0..<B2 + B1]) [0..<C])" "C * (B2 + B1)"] rowlen
    by (simp add: wf_array_def)
  have low: "at3 img b i j = Inr (data img ! ((b * R + i) * C + j)) \<and>
             at3 ?raster i j b = Inr (data img ! ((b * R + i) * C + j))"
    if i: "i < R" and j: "j < C" and b: "b < B2" for i j b
  proof -
    have "b * R + i < B2 * R" using b i by (rule flat_index_bound)
    then have "(b * R + i) * C + j < B2 * R * C" using j by (rule flat_index_bound)
    then have "?g b i j = data img ! ((b * R + i) * C + j)"
      using len1 by (simp add: nth_append)
    moreover have "b < B2 + B1" using b by simp
    ultimately show ?thesis
      using i j b assms(1) stacked_nth [of i R j C b "B2 + B1" ?g]
      by (simp add: at3_def)
  qed
  have high: "at3 img2 (b - B2) i j = Inr (data img2 ! (((b - B2) * R + i) * C + j)) \<and>
              at3 ?raster i j b = Inr (data img2 ! (((b - B2) * R + i) * C + j))"
    if i: "i < R" and j: "j < C" and lo: "B2 \<le> b" and hi: "b < B2 + B1" for i j b
  proof -
    define d where "d = b - B2"
    have d: "b = B2 + d" "d < B1"
      using lo hi by (simp_all add: d_def)
    have "(b * R + i) * C + j = B2 * R * C + ((d * R + i) * C + j)"
      using d(1) by (simp add: algebra_simps)
    then have "?g b i j = data img2 ! ((d * R + i) * C + j)"
      using len1 by (simp add: nth_append)
    then show ?thesis
      using i j hi d assms(3) stacked_nth [of i R j C b "B2 + B1" ?g]
      by (simp add: at3_def)
  qed
  show ?thesis
    using val wf low high by (intro exI [of _ ?raster]) (simp; blast)
qed


text \<open>
  C6. Between the concatenation and the transposition the script selects
  \<^verbatim>\<open>raster[:,:,[8,4,3]]\<close> for a preview. The array still has the shape (bands, rows,
  columns) there, so the indices 8, 4, 3 meant for bands address columns, and on a crop
  of fewer than nine columns the selection raises: two arrays of shape \<open>(1, 1, 2)\<close> are
  not stacked, although concatenating and transposing them gives the raster of shape
  \<open>(1, 2, 2)\<close> with the Sentinel-2 band before the Sentinel-1 band in each pixel.
\<close>

theorem narrow_crop_not_stacked_C6:
  "stack_bands \<lparr>shape = [1, 1, 2], data = [1, 2 :: real]\<rparr> \<lparr>shape = [1, 1, 2], data = [3, 4]\<rparr>
     = Inl IndexError \<and>
   bindE (np_concatenate0 \<lparr>shape = [1, 1, 2], data = [1, 2 :: real]\<rparr>
                          \<lparr>shape = [1, 1, 2], data = [3, 4]\<rparr>) np_transpose_120
     = Inr \<lparr>shape = [1, 2, 2], data = [1, 3, 2, 4]\<rparr>"
  by (simp add: stack_bands_def bindE_def np_concatenate0_def take_axis2_def np_transpose_120_def
      upt_rec)

lemma narrow_crop_raises:
  assumes "shape img = [B2, R, C]" and "shape img2 = [B1, R, C]" and "C \<le> 8"
  shows "stack_bands img img2 = Inl IndexError"
  using assms by (simp add: stack_bands_def bindE_def np_concatenate0_def take_axis2_def)

subsection \<open>The pixel matrix\<close>

text \<open>
  C2. With the globals \<open>rows\<close> and \<open>columns\<close> holding the raster's dimensions (their product
  is all that matters), the first statement of the routine turns a raster of shape
  \<open>(R, C, B)\<close> into the matrix \<open>X\<close> of shape \<open>(R * C, B)\<close> with
  \<open>X[i * C + j, b] = raster[i, j, b]\<close>.
\<close>

theorem reshape_row_major_C2:
  assumes "shape raster = [R, C, B]" and "wf_array raster" and "nrows * ncols = R * C"
  shows "\<exists>X. reshape_pixels nrows ncols raster = Inr X \<and> shape X = [R * C, B] \<and> wf_array X \<and>
           (\<forall>i<R. \<forall>j<C. \<forall>b<B. \<exists>v. at3 raster i j b = Inr v \<and> at2 X (i * C + j) b = Inr v)"
proof -
  let ?X = "raster\<lparr>shape := [R * C, B]\<rparr>"
  have val: "reshape_pixels nrows ncols raster = Inr ?X"
    using assms by (simp add: reshape_pixels_def bindE_def shape_at_def np_reshape_def wf_array_def)
  have wf: "wf_array ?X"
    using assms(1,2) by (simp add: wf_array_def)
  have px: "at3 raster i j b = Inr (data raster ! ((i * C + j) * B + b)) \<and>
            at2 ?X (i * C + j) b = Inr (data raster ! ((i * C + j) * B + b))"
    if i: "i < R" and j: "j < C" and b: "b < B" for i j b
  proof -
    have "i * C + j < R * C" using i j by (rule flat_index_bound)
    then show ?thesis using assms(1) i j b by (simp add: at3_def at2_def)
  qed
  show ?thesis
    using val wf px by (intro exI [of _ ?X]) simp
qed

theorem reshape_row_major_C2_witness:
  "\<exists>X. reshape_pixels 1 2 stub_raster = Inr X \<and> shape X = [1 * 2, 1] \<and> wf_array X \<and>
     (\<forall>i<1. \<forall>j<2. \<forall>b<1. \<exists>v. at3 stub_raster i j b = Inr v \<and> at2 X (i * 2 + j) b = Inr v)"
  using reshape_row_major_C2 [of stub_raster 1 2 1 1 2]
  by (simp add: stub_raster_def wf_array_def)

subsection \<open>The output file name\<close>

text \<open>
  C9. The name of the output file: the entered string between a fixed prefix and
  \<open>k.tif\<close>, with \<open>_bnorm\<close>, then \<open>_pca\<close>, put before the extension when the options are set.
\<close>

theorem output_name_C9:
  "output_name s False False = ''Sentinel_40m_kmeans_'' @ s @ ''k.tif'' \<and>
   output_name s True False = ''Sentinel_40m_kmeans_'' @ s @ ''k_bnorm.tif'' \<and>
   output_name s False True = ''Sentinel_40m_kmeans_'' @ s @ ''k_pca.tif'' \<and>
   output_name s True True = ''Sentinel_40m_kmeans_'' @ s @ ''k_bnorm_pca.tif'' \<and>
   output_name ''8'' True True = ''Sentinel_40m_kmeans_8k_bnorm_pca.tif''"
  by (simp add: output_name_def)

subsection \<open>Brightness normalisation\<close>

lemma sum_squares_scaled:
  fixes s :: real
  shows "sum_list (map (\<lambda>x. (x / s) ^ 2) c) = sum_list (map (\<lambda>x. x ^ 2) c) / s ^ 2"
  by (induction c) (simp_all add: power_divide add_divide_distrib)

lemma l2_norm_norm:
  assumes "sum_list (map (\<lambda>x. x ^ 2) c) \<noteq> 0"
  shows "l2_norm (norm c) = Fin 1"
proof -
  let ?q = "sum_list (map (\<lambda>x. x ^ 2) c)"
  have q0: "0 \<le> ?q" by (induction c) simp_all
  with assms have qpos: "0 < ?q" by simp
  then have s: "sqrt ?q \<noteq> 0" by simp
  have n: "norm c = map (\<lambda>x. Fin (x / sqrt ?q)) c"
    using s by (simp add: norm_def fdiv_def Let_def)
  have "sum_list (map (\<lambda>x. case x of Fin r \<Rightarrow> r ^ 2 | NaN \<Rightarrow> 0) (norm c))
          = sum_list (map (\<lambda>x. (x / sqrt ?q) ^ 2) c)"
    unfolding n by (simp add: comp_def)
  also have "\<dots> = ?q / (sqrt ?q) ^ 2" by (rule sum_squares_scaled)
  also have "\<dots> = 1" using qpos by simp
  finally have one: "sum_list (map (\<lambda>x. case x of Fin r \<Rightarrow> r ^ 2 | NaN \<Rightarrow> 0) (norm c)) = 1" .
  have "NaN \<notin> set (norm c)" unfolding n by auto
  then show ?thesis by (simp add: l2_norm_def one)
qed

lemma column_of_normalised:
  assumes "shape X = [n, m]" and "j < m"
  shows "apply_along_axis0 norm X = Inr Y \<Longrightarrow> column Y j = norm (column X j)"
proof -
  assume Y: "apply_along_axis0 norm X = Inr Y"
  have len: "length (norm (column X k)) = n" for k
    using assms(1) by (simp add: norm_def column_def Let_def)
  have Yv: "Y = \<lparr>shape = [n, m],
      data = concat (map (\<lambda>i. map (\<lambda>j. norm (column X j) ! i) [0..<m]) [0..<n])\<rparr>"
    using Y assms by (auto simp: apply_along_axis0_def split: if_splits)
  have cell: "data Y ! (i * m + j) = norm (column X j) ! i" if "i < n" for i
  proof -
    have "concat (map (\<lambda>i. map (\<lambda>j. norm (column X j) ! i) [0..<m]) [0..<n]) ! (i * m + j)
            = map (\<lambda>j. norm (column X j) ! i) [0..<m] ! j"
      by (rule nth_concat_uniform) (use that assms(2) in simp_all)
    then show ?thesis using assms(2) by (simp add: Yv)
  qed
  show "column Y j = norm (column X j)"
    by (rule nth_equalityI) (use cell len in \<open>simp_all add: column_def Yv\<close>)
qed

lemma bnorm_unit_bands:
  assumes "shape X = [n, m]" and "j < m" and "apply_along_axis0 norm X = Inr Y"
    and "sum_list (map (\<lambda>x. x ^ 2) (column X j)) \<noteq> 0"
  shows "l2_norm (column Y j) = Fin 1"
  using column_of_normalised [OF assms(1,2,3)] l2_norm_norm [OF assms(4)] by simp

text \<open>
  C1. The normalisation is applied along axis 0, that is to each band over all pixels,
  not to each pixel over its bands: it is the bands that end with unit length
  (\<open>bnorm_unit_bands\<close>). On the two pixels \<open>(3, 0)\<close> and \<open>(4, 1)\<close> the bands
  \<open>(3, 4)\<close> and \<open>(0, 1)\<close> are scaled to unit length, and the first pixel, which is not zero,
  ends with norm \<open>3/5\<close> and the second with its band ratio changed from \<open>4 : 1\<close> to \<open>4 : 5\<close>.
\<close>

theorem bnorm_scales_bands_C1:
  "apply_along_axis0 norm \<lparr>shape = [2, 2], data = [3, 0, 4, 1]\<rparr> =
     Inr \<lparr>shape = [2, 2], data = [Fin (3 / 5), Fin 0, Fin (4 / 5), Fin 1]\<rparr> \<and>
   l2_norm (row \<lparr>shape = [2, 2], data = [Fin (3 / 5), Fin 0, Fin (4 / 5), Fin 1]\<rparr> 0) = Fin (3 / 5) \<and>
   l2_norm (column \<lparr>shape = [2, 2], data = [Fin (3 / 5), Fin 0, Fin (4 / 5), Fin 1]\<rparr> 0) = Fin 1"
  by (simp add: apply_along_axis0_def column_def row_def norm_def fdiv_def l2_norm_def upt_rec
      power2_eq_square real_sqrt_divide)

subsection \<open>The subsample\<close>

lemma take_rows_value:
  assumes "shape X = [N, B]" and "list_all (\<lambda>i. 0 \<le> i \<and> i < int N) idx"
  shows "take_rows X idx =
           Inr \<lparr>shape = [length idx, B], data = concat (map (\<lambda>i. row X (nat i)) idx)\<rparr>"
proof -
  have ok: "list_all (\<lambda>i. - int N \<le> i \<and> i < int N) idx"
    using assms(2) by (auto simp: list_all_iff)
  have eq: "map (\<lambda>i. row X (nat (if i < 0 then i + int N else i))) idx = map (\<lambda>i. row X (nat i)) idx"
    using assms(2) by (auto simp: list_all_iff)
  show ?thesis
    using assms(1) ok by (simp add: take_rows_def eq)
qed

lemma length_row: "shape X = [N, B] \<Longrightarrow> length (row X i) = B"
  by (simp add: row_def)

lemma rows_of_gathered:
  assumes "shape X = [N, B]" and "p < length idx"
  shows "row \<lparr>shape = [length idx, B], data = concat (map (\<lambda>i. row X (nat i)) idx)\<rparr> p
           = row X (nat (idx ! p))"
proof -
  let ?f = "\<lambda>q. row X (nat (idx ! q))"
  have as_upt: "map (\<lambda>i. row X (nat i)) idx = map ?f [0..<length idx]"
    by (rule nth_equalityI) simp_all
  have cell: "concat (map ?f [0..<length idx]) ! (p * B + j) = row X (nat (idx ! p)) ! j"
    if "j < B" for j
    by (rule nth_concat_uniform) (use assms that in \<open>simp_all add: length_row\<close>)
  show ?thesis
    unfolding as_upt
    by (rule nth_equalityI) (use assms(1) cell in \<open>simp_all add: row_def\<close>)
qed

text \<open>
  C8. Whatever \<open>numSamples\<close> indices \<^verbatim>\<open>randint\<close> draws from \<open>[0, N)\<close>, taking those rows
  of the pixel matrix succeeds and gives \<open>numSamples\<close> rows of \<open>B\<close> bands, row \<open>p\<close> of the
  sample being the row of \<open>X\<close> that index \<open>p\<close> names. Nothing requires the indices to
  differ or \<open>numSamples\<close> to stay below \<open>N\<close>.
\<close>

theorem subsample_in_bounds_C8:
  assumes "shape X = [N, B]" and "wf_array X"
    and "randint lib N numSamples = Inr idx" and "randint_outcome N numSamples idx"
  shows "\<exists>samples. subsample lib X numSamples = Inr samples \<and>
           length idx = nat numSamples \<and>
           shape samples = [nat numSamples, B] \<and> wf_array samples \<and>
           (\<forall>p < nat numSamples. 0 \<le> idx ! p \<and> idx ! p < int N \<and>
                row samples p = row X (nat (idx ! p)))"
proof -
  let ?S = "\<lparr>shape = [length idx, B], data = concat (map (\<lambda>i. row X (nat i)) idx)\<rparr>"
  have len: "length idx = nat numSamples"
    and range: "list_all (\<lambda>i. 0 \<le> i \<and> i < int N) idx"
    using assms(4) by (simp_all add: randint_outcome_def)
  have val: "subsample lib X numSamples = Inr ?S"
    using assms(1,3) take_rows_value [OF assms(1) range]
    by (simp add: subsample_def bindE_def shape_at_def)
  have "length (concat (map (\<lambda>i. row X (nat i)) idx)) = length idx * B"
    using assms(1) by (induction idx) (simp_all add: length_row)
  then have wf: "wf_array ?S"
    by (simp add: wf_array_def)
  have rows_eq: "0 \<le> idx ! p \<and> idx ! p < int N \<and> row ?S p = row X (nat (idx ! p))"
    if "p < length idx" for p
    using that range rows_of_gathered [OF assms(1) that] by (simp add: list_all_length)
  show ?thesis
    using val wf rows_eq len by (intro exI [of _ ?S]) simp
qed

theorem subsample_in_bounds_C8_witness:
  "\<exists>samples. subsample stub_library \<lparr>shape = [2, 1], data = [Fin 3, Fin 4]\<rparr> 3 = Inr samples \<and>
     length [1, 0, 1 :: int] = nat 3 \<and>
     shape samples = [nat 3, 1] \<and> wf_array samples \<and>
     (\<forall>p < nat 3. 0 \<le> [1, 0, 1 :: int] ! p \<and> [1, 0, 1] ! p < int 2 \<and>
          row samples p = row \<lparr>shape = [2, 1], data = [Fin 3, Fin 4]\<rparr> (nat ([1, 0, 1] ! p)))"
  using subsample_in_bounds_C8 [of "\<lparr>shape = [2, 1], data = [Fin 3, Fin 4]\<rparr>" 2 1
      stub_library 3 "[1, 0, 1]"]
  by (simp add: wf_array_def stub_library_def randint_outcome_def upt_rec)

subsection \<open>The small library meets the contract\<close>

lemma stub_labels_props:
  assumes "1 \<le> k"
  shows "shape (stub_labels k N) = [N]" and "wf_array (stub_labels k N)"
    and "\<forall>l \<in> set (data (stub_labels k N)). 0 \<le> l \<and> l < k"
  using assms by (auto simp: stub_labels_def wf_array_def)

lemma stub_library_contract: "library_contract stub_library"
  unfolding library_contract_def
proof (intro conjI allI impI)
  fix high sz idx
  assume "randint stub_library high sz = Inr idx"
  then show "randint_outcome high sz idx"
    by (auto simp: stub_library_def randint_outcome_def list_all_iff split: if_splits)
next
  fix n X Y N B
  assume a: "pca_fit_transform stub_library n X = Inr Y" "shape X = [N, B]"
  then have "Y = X \<and> n = B"
    by (auto simp: stub_library_def split: if_splits)
  with a(2) show "shape Y = [N, n]" by simp
  from a show "wf_array Y"
    by (auto simp: stub_library_def split: if_splits)
next
  fix k seed S m L N B
  assume a: "fit_predict stub_library k seed S = Inr (m, L)" "shape S = [N, B]"
  then have *: "1 \<le> k \<and> k \<le> int N \<and> m = k \<and> L = stub_labels k N"
    by (auto simp: stub_library_def split: if_splits)
  then show "1 \<le> k" "k \<le> int N" "n_clusters_of stub_library m = k"
    by (simp_all add: stub_library_def)
  from * show "shape L = [N]" "wf_array L" "\<forall>l \<in> set (data L). 0 \<le> l \<and> l < k"
    using stub_labels_props [of k N] by simp_all
next
  fix m X L N B
  assume a: "predict stub_library m X = Inr L" "shape X = [N, B]"
  then have *: "1 \<le> m \<and> L = stub_labels m N"
    by (auto simp: stub_library_def split: if_splits)
  then show "shape L = [N]" "wf_array L"
    "\<forall>l \<in> set (data L). 0 \<le> l \<and> l < n_clusters_of stub_library m"
    using stub_labels_props [of m N] by (simp_all add: stub_library_def)
next
  fix S L v
  assume "silhouette_score stub_library S L = Inr v"
  then show "2 \<le> length (remdups (data L))" "length (remdups (data L)) < length (data L)"
    by (auto simp: stub_library_def Let_def split: if_splits)
qed

subsection \<open>The sweep\<close>

lemma sweep_log:
  "\<exists>evs. snd (sweep lib S ks w) = w\<lparr>trace := trace w @ evs\<rparr> \<and>
         Prompted \<notin> set evs \<and>
         (\<forall>k seed S'. KMeansFit k seed S' \<in> set evs \<longrightarrow> seed = 10) \<and>
         (\<forall>X. Predicted X \<notin> set evs) \<and>
         (\<forall>u. fst (sweep lib S ks w) = Inr u \<longrightarrow>
              (\<exists>scored. map fst scored = ks \<and> list_all (candidate_scored lib S) scored \<and>
                 evs = sweep_events S scored))"
proof (induction ks arbitrary: w)
  case Nil
  show ?case
    by (intro exI [of _ "[]"]) (simp add: returns_def sweep_events_def)
next
  case (Cons k ks)
  let ?w1 = "w\<lparr>trace := trace w @ [KMeansFit k 10 S]\<rparr>"
  show ?case
  proof (cases "fit_predict lib k 10 S")
    case (Inl e)
    then have "sweep lib S (k # ks) w = (Inl e, ?w1)"
      by (simp add: call_fit_predict_def and_then_def emit_def lift_def)
    then show ?thesis
      by (intro exI [of _ "[KMeansFit k 10 S]"]) simp
  next
    case (Inr mL)
    obtain m L where mL: "mL = (m, L)" by (cases mL)
    let ?w2 = "w\<lparr>trace := trace w @ [KMeansFit k 10 S, Silhouette S L]\<rparr>"
    show ?thesis
    proof (cases "silhouette_score lib S L")
      case (Inl e)
      then have "sweep lib S (k # ks) w = (Inl e, ?w2)"
        using Inr mL
        by (simp add: call_fit_predict_def call_silhouette_def and_then_def emit_def lift_def)
      then show ?thesis
        by (intro exI [of _ "[KMeansFit k 10 S, Silhouette S L]"]) simp
    next
      case (Inr v)
      let ?w3 = "w\<lparr>trace := trace w @ [KMeansFit k 10 S, Silhouette S L, Printed k v]\<rparr>"
      have step: "sweep lib S (k # ks) w = sweep lib S ks ?w3"
        using \<open>fit_predict lib k 10 S = Inr mL\<close> mL Inr
        by (simp add: call_fit_predict_def call_silhouette_def and_then_def emit_def lift_def)
      obtain evs where evs: "snd (sweep lib S ks ?w3) = ?w3\<lparr>trace := trace ?w3 @ evs\<rparr>"
        "Prompted \<notin> set evs" "\<forall>k seed S'. KMeansFit k seed S' \<in> set evs \<longrightarrow> seed = 10"
        "\<forall>X. Predicted X \<notin> set evs"
        "\<forall>u. fst (sweep lib S ks ?w3) = Inr u \<longrightarrow>
              (\<exists>scored. map fst scored = ks \<and> list_all (candidate_scored lib S) scored \<and>
                 evs = sweep_events S scored)"
        using Cons.IH [of ?w3] by (elim exE conjE) (rule that; assumption)
      let ?evs = "[KMeansFit k 10 S, Silhouette S L, Printed k v] @ evs"
      have this_one: "candidate_scored lib S (k, L, v)"
        using \<open>fit_predict lib k 10 S = Inr mL\<close> mL Inr by (simp add: candidate_scored_def)
      have full: "\<exists>scored. map fst scored = k # ks \<and> list_all (candidate_scored lib S) scored \<and>
                    ?evs = sweep_events S scored"
        if "fst (sweep lib S ks ?w3) = Inr u" for u
      proof -
        from evs(5) that have "\<exists>scored. map fst scored = ks \<and>
            list_all (candidate_scored lib S) scored \<and> evs = sweep_events S scored"
          by (elim allE [of _ u] impE) assumption+
        then obtain scored where "map fst scored = ks" "list_all (candidate_scored lib S) scored"
          "evs = sweep_events S scored"
          by (elim exE conjE) (rule that; assumption)
        with this_one show ?thesis
          by (intro exI [of _ "(k, L, v) # scored"]) (simp add: sweep_events_def)
      qed
      have c1: "snd (sweep lib S (k # ks) w) = w\<lparr>trace := trace w @ ?evs\<rparr>"
        unfolding step evs(1) by simp
      have c2: "Prompted \<notin> set ?evs"
        using evs(2) by simp
      have c3: "\<forall>k' seed S'. KMeansFit k' seed S' \<in> set ?evs \<longrightarrow> seed = 10"
        using evs(3) by simp
      have c4: "\<forall>X. Predicted X \<notin> set ?evs"
        using evs(4) by simp
      have c5: "\<forall>u. fst (sweep lib S (k # ks) w) = Inr u \<longrightarrow>
                  (\<exists>scored. map fst scored = k # ks \<and> list_all (candidate_scored lib S) scored \<and>
                     ?evs = sweep_events S scored)"
        unfolding step using full by (intro allI impI)
      show ?thesis
        using c1 c2 c3 c4 c5 by (intro exI [of _ ?evs] conjI)
    qed
  qed
qed

lemma sweep_total:
  assumes "map fst scored = ks" and "list_all (candidate_scored lib S) scored"
  shows "sweep lib S ks w = (Inr (), w\<lparr>trace := trace w @ sweep_events S scored\<rparr>)"
  using assms
proof (induction scored arbitrary: ks w)
  case Nil
  then show ?case by (simp add: returns_def sweep_events_def)
next
  case (Cons c scored)
  obtain k L v where c: "c = (k, L, v)" by (cases c)
  from Cons.prems(1) c obtain ks' where ks: "ks = k # ks'" "map fst scored = ks'"
    by auto
  from Cons.prems(2) c obtain m where fit: "fit_predict lib k 10 S = Inr (m, L)"
    and sil: "silhouette_score lib S L = Inr v" and rest: "list_all (candidate_scored lib S) scored"
    by (auto simp: candidate_scored_def split: sum.splits)
  let ?w3 = "w\<lparr>trace := trace w @ [KMeansFit k 10 S, Silhouette S L, Printed k v]\<rparr>"
  have "sweep lib S ks w = sweep lib S ks' ?w3"
    unfolding ks(1) using fit sil
    by (simp add: call_fit_predict_def call_silhouette_def and_then_def emit_def lift_def)
  also have "\<dots> = (Inr (), ?w3\<lparr>trace := trace ?w3 @ sweep_events S scored\<rparr>)"
    using ks(2) rest by (rule Cons.IH)
  also have "?w3\<lparr>trace := trace ?w3 @ sweep_events S scored\<rparr>
               = w\<lparr>trace := trace w @ sweep_events S (c # scored)\<rparr>"
    by (simp add: c sweep_events_def)
  finally show ?case .
qed

lemma candidate_scored_unique:
  assumes "map fst scored = map fst scored'"
    and "list_all (candidate_scored lib S) scored" and "list_all (candidate_scored lib S) scored'"
  shows "scored = scored'"
  using assms
proof (induction scored arbitrary: scored')
  case Nil
  then show ?case by simp
next
  case (Cons c scored)
  from Cons.prems(1) obtain c' rest' where s': "scored' = c' # rest'"
    by (cases scored') auto
  from Cons.prems s' have "fst c = fst c'" "candidate_scored lib S c" "candidate_scored lib S c'"
    by simp_all
  then have "c = c'"
    by (cases c; cases c') (auto simp: candidate_scored_def split: sum.splits)
  moreover have "scored = rest'"
    using Cons.prems s' by (intro Cons.IH) simp_all
  ultimately show ?case using s' by simp
qed

subsection \<open>The steps after the prompt\<close>

lemma final_fit_unfold:
  "final_fit lib X S s bnorm pca w =
     (case py_int lib s of
        Inl e \<Rightarrow> (Inl e, w)
      | Inr k \<Rightarrow>
         (case fit_predict lib k 123 S of
            Inl e \<Rightarrow> (Inl e, w\<lparr>trace := trace w @ [KMeansFit k 123 S]\<rparr>)
          | Inr mL \<Rightarrow>
             (case silhouette_score lib S (snd mL) of
                Inl e \<Rightarrow> (Inl e, w\<lparr>trace := trace w @ [KMeansFit k 123 S, Silhouette S (snd mL)]\<rparr>)
              | Inr v \<Rightarrow>
                 (case predict lib (fst mL) X of
                    Inl e \<Rightarrow> (Inl e, w\<lparr>trace := trace w @
                                 [KMeansFit k 123 S, Silhouette S (snd mL), Predicted X]\<rparr>)
                  | Inr P \<Rightarrow>
                     (case np_reshape P [rows w, columns w] of
                        Inl e \<Rightarrow> (Inl e, w\<lparr>trace := trace w @
                                 [KMeansFit k 123 S, Silhouette S (snd mL), Predicted X]\<rparr>)
                      | Inr p \<Rightarrow>
                         (Inr p, w\<lparr>trace := trace w @
                                      [KMeansFit k 123 S, Silhouette S (snd mL), Predicted X],
                                    meta := (meta w)(''dtype'' \<mapsto> MStr (dtype p),
                                                     ''count'' \<mapsto> MInt 1),
                                    disk := (disk w)(output_name s bnorm pca \<mapsto>
                                       \<lparr>profile = (meta w)(''dtype'' \<mapsto> MStr (dtype p),
                                                             ''count'' \<mapsto> MInt 1),
                                        bands = [1 \<mapsto> p]\<rparr>)\<rparr>))))))"
  by (simp add: final_fit_def and_then_def lift_def reads_def returns_def emit_def
      call_fit_predict_def call_silhouette_def call_predict_def update_meta_def write_raster_def
      split: sum.splits prod.splits)

lemma final_fit_no_parse:
  "py_int lib s = Inl e \<Longrightarrow> final_fit lib X S s bnorm pca w = (Inl e, w)"
  by (simp add: final_fit_unfold)

lemma final_fit_log:
  assumes "py_int lib s = Inr k"
  shows "\<exists>rest. trace (snd (final_fit lib X S s bnorm pca w)) = trace w @ KMeansFit k 123 S # rest \<and>
           Prompted \<notin> set rest \<and> (\<forall>k' seed S'. KMeansFit k' seed S' \<notin> set rest)"
  using assms by (simp add: final_fit_unfold split: sum.splits)

lemma final_fit_frame:
  "rows (snd (final_fit lib X S s bnorm pca w)) = rows w \<and>
   columns (snd (final_fit lib X S s bnorm pca w)) = columns w \<and>
   stdin (snd (final_fit lib X S s bnorm pca w)) = stdin w \<and>
   (\<forall>key. key \<noteq> ''dtype'' \<longrightarrow> key \<noteq> ''count'' \<longrightarrow>
      meta (snd (final_fit lib X S s bnorm pca w)) key = meta w key)"
  by (simp add: final_fit_unfold split: sum.splits)

lemma final_fit_error:
  assumes "fst (final_fit lib X S s bnorm pca w) = Inl e"
  shows "disk (snd (final_fit lib X S s bnorm pca w)) = disk w \<and>
         meta (snd (final_fit lib X S s bnorm pca w)) = meta w"
  using assms by (auto simp: final_fit_unfold split: sum.splits)

lemma final_fit_success:
  assumes "fst (final_fit lib X S s bnorm pca w) = Inr p"
  shows "\<exists>k m L v P. py_int lib s = Inr k \<and> fit_predict lib k 123 S = Inr (m, L) \<and>
           silhouette_score lib S L = Inr v \<and> predict lib m X = Inr P \<and>
           np_reshape P [rows w, columns w] = Inr p \<and>
           snd (final_fit lib X S s bnorm pca w) =
             w\<lparr>trace := trace w @ [KMeansFit k 123 S, Silhouette S L, Predicted X],
               meta := (meta w)(''dtype'' \<mapsto> MStr (dtype p), ''count'' \<mapsto> MInt 1),
               disk := (disk w)(output_name s bnorm pca \<mapsto>
                  \<lparr>profile = (meta w)(''dtype'' \<mapsto> MStr (dtype p), ''count'' \<mapsto> MInt 1),
                   bands = [1 \<mapsto> p]\<rparr>)\<rparr>"
proof (cases "py_int lib s")
  case (Inl e)
  with assms show ?thesis by (simp add: final_fit_unfold)
next
  case k: (Inr k)
  show ?thesis
  proof (cases "fit_predict lib k 123 S")
    case (Inl e)
    with assms k show ?thesis by (simp add: final_fit_unfold)
  next
    case mL: (Inr mL)
    show ?thesis
    proof (cases "silhouette_score lib S (snd mL)")
      case (Inl e)
      with assms k mL show ?thesis by (simp add: final_fit_unfold)
    next
      case v: (Inr v)
      show ?thesis
      proof (cases "predict lib (fst mL) X")
        case (Inl e)
        with assms k mL v show ?thesis by (simp add: final_fit_unfold)
      next
        case P: (Inr P)
        show ?thesis
        proof (cases "np_reshape P [rows w, columns w]")
          case (Inl e)
          with assms k mL v P show ?thesis by (simp add: final_fit_unfold)
        next
          case (Inr p')
          with assms k mL v P have "p' = p" by (simp add: final_fit_unfold)
          with Inr k mL v P show ?thesis
            by (intro exI [of _ k] exI [of _ "fst mL"] exI [of _ "snd mL"] exI [of _ v] exI [of _ P])
               (simp add: final_fit_unfold)
        qed
      qed
    qed
  qed
qed

subsection \<open>The candidates and the prompt\<close>

lemma range_n_clusters:
  "py_range 2 33 2 = Inr [2, 4, 6, 8, 10, 12, 14, 16, 18, 20, 22, 24, 26, 28, 30, 32]"
  by (simp add: py_range_def upt_rec)

lemma input_line_unfold:
  "input_line w =
     (case stdin w of
        [] \<Rightarrow> (Inl EOFError, w\<lparr>trace := trace w @ [Prompted]\<rparr>)
      | line # rest \<Rightarrow> (Inr line, w\<lparr>trace := trace w @ [Prompted], stdin := rest\<rparr>))"
  by (simp add: input_line_def and_then_def emit_def split: list.splits)

lemma select_clusters_unfold:
  "select_clusters lib S w =
     (case fst (sweep lib S [2, 4, 6, 8, 10, 12, 14, 16, 18, 20, 22, 24, 26, 28, 30, 32] w) of
        Inl e \<Rightarrow> (Inl e, snd (sweep lib S [2, 4, 6, 8, 10, 12, 14, 16, 18, 20, 22, 24, 26, 28, 30, 32] w))
      | Inr u \<Rightarrow> input_line (snd (sweep lib S [2, 4, 6, 8, 10, 12, 14, 16, 18, 20, 22, 24, 26, 28, 30, 32] w)))"
  unfolding select_clusters_def range_n_clusters
  by (simp add: and_then_def lift_def del: sweep.simps split: prod.splits sum.splits)

lemma select_clusters_cases:
  obtains (sweep_fails) e evs where
      "select_clusters lib S w = (Inl e, w\<lparr>trace := trace w @ evs\<rparr>)"
      "Prompted \<notin> set evs" "\<forall>k seed S'. KMeansFit k seed S' \<in> set evs \<longrightarrow> seed = 10"
      "\<forall>X. Predicted X \<notin> set evs"
      "fst (sweep lib S [2, 4, 6, 8, 10, 12, 14, 16, 18, 20, 22, 24, 26, 28, 30, 32] w) = Inl e"
  | (eof) scored where
      "stdin w = []"
      "map fst scored = [2, 4, 6, 8, 10, 12, 14, 16, 18, 20, 22, 24, 26, 28, 30, 32]"
      "select_clusters lib S w =
         (Inl EOFError, w\<lparr>trace := trace w @ sweep_events S scored @ [Prompted]\<rparr>)"
      "list_all (candidate_scored lib S) scored"
  | (answered) scored s more where
      "stdin w = s # more"
      "map fst scored = [2, 4, 6, 8, 10, 12, 14, 16, 18, 20, 22, 24, 26, 28, 30, 32]"
      "select_clusters lib S w =
         (Inr s, w\<lparr>trace := trace w @ sweep_events S scored @ [Prompted], stdin := more\<rparr>)"
      "list_all (candidate_scored lib S) scored"
proof -
  let ?ks = "[2, 4, 6, 8, 10, 12, 14, 16, 18, 20, 22, 24, 26, 28, 30, 32] :: int list"
  obtain evs where evs: "snd (sweep lib S ?ks w) = w\<lparr>trace := trace w @ evs\<rparr>"
    "Prompted \<notin> set evs" "\<forall>k seed S'. KMeansFit k seed S' \<in> set evs \<longrightarrow> seed = 10"
    "\<forall>X. Predicted X \<notin> set evs"
    "\<forall>u. fst (sweep lib S ?ks w) = Inr u \<longrightarrow>
          (\<exists>scored. map fst scored = ?ks \<and> list_all (candidate_scored lib S) scored \<and>
             evs = sweep_events S scored)"
    using sweep_log [of lib S ?ks w] by (elim exE conjE) (rule that; assumption)
  show ?thesis
  proof (cases "fst (sweep lib S ?ks w)")
    case (Inl e)
    then have "select_clusters lib S w = (Inl e, w\<lparr>trace := trace w @ evs\<rparr>)"
      by (simp add: select_clusters_unfold evs(1) del: sweep.simps)
    then show ?thesis using evs(2-4) Inl by (rule sweep_fails)
  next
    case (Inr u)
    with evs(5) have "\<exists>scored. map fst scored = ?ks \<and>
        list_all (candidate_scored lib S) scored \<and> evs = sweep_events S scored"
      by (elim allE [of _ u] impE) assumption+
    then obtain scored where scored: "map fst scored = ?ks" "evs = sweep_events S scored"
      and sc: "list_all (candidate_scored lib S) scored"
      by (elim exE conjE) (rule that; assumption)
    show ?thesis
    proof (cases "stdin w")
      case Nil
      have "select_clusters lib S w =
              (Inl EOFError, w\<lparr>trace := trace w @ sweep_events S scored @ [Prompted]\<rparr>)"
        using Inr Nil by (simp add: select_clusters_unfold evs(1) scored(2) input_line_unfold del: sweep.simps)
      with Nil scored(1) show ?thesis using sc by (rule eof)
    next
      case (Cons s more)
      have "select_clusters lib S w =
              (Inr s, w\<lparr>trace := trace w @ sweep_events S scored @ [Prompted], stdin := more\<rparr>)"
        using Inr Cons by (simp add: select_clusters_unfold evs(1) scored(2) input_line_unfold del: sweep.simps)
      with Cons scored(1) show ?thesis using sc by (rule answered)
    qed
  qed
qed

subsection \<open>The whole routine\<close>

lemma run_Kmeans_unfold:
  "run_Kmeans lib raster numSamples bnorm pca w =
     (case preprocess lib (rows w) (columns w) raster numSamples bnorm pca of
        Inl e \<Rightarrow> (Inl e, w)
      | Inr XS \<Rightarrow>
         (case fst (select_clusters lib (snd XS) w) of
            Inl e \<Rightarrow> (Inl e, snd (select_clusters lib (snd XS) w))
          | Inr s \<Rightarrow> final_fit lib (fst XS) (snd XS) s bnorm pca
                       (snd (select_clusters lib (snd XS) w))))"
  by (simp add: run_Kmeans_def and_then_def reads_def split: prod.splits sum.splits)

lemma run_Kmeans_cases:
  obtains (preprocess_fails) e where
      "preprocess lib (rows w) (columns w) raster numSamples bnorm pca = Inl e"
      "run_Kmeans lib raster numSamples bnorm pca w = (Inl e, w)"
  | (sweep_fails) X S e evs where
      "preprocess lib (rows w) (columns w) raster numSamples bnorm pca = Inr (X, S)"
      "run_Kmeans lib raster numSamples bnorm pca w = (Inl e, w\<lparr>trace := trace w @ evs\<rparr>)"
      "Prompted \<notin> set evs" "\<forall>k seed S'. KMeansFit k seed S' \<in> set evs \<longrightarrow> seed = 10"
      "\<forall>X. Predicted X \<notin> set evs"
      "fst (sweep lib S [2, 4, 6, 8, 10, 12, 14, 16, 18, 20, 22, 24, 26, 28, 30, 32] w) = Inl e"
  | (eof) X S scored where
      "preprocess lib (rows w) (columns w) raster numSamples bnorm pca = Inr (X, S)"
      "stdin w = []"
      "map fst scored = [2, 4, 6, 8, 10, 12, 14, 16, 18, 20, 22, 24, 26, 28, 30, 32]"
      "run_Kmeans lib raster numSamples bnorm pca w =
         (Inl EOFError, w\<lparr>trace := trace w @ sweep_events S scored @ [Prompted]\<rparr>)"
      "list_all (candidate_scored lib S) scored"
  | (answered) X S scored s more where
      "preprocess lib (rows w) (columns w) raster numSamples bnorm pca = Inr (X, S)"
      "stdin w = s # more"
      "map fst scored = [2, 4, 6, 8, 10, 12, 14, 16, 18, 20, 22, 24, 26, 28, 30, 32]"
      "run_Kmeans lib raster numSamples bnorm pca w =
         final_fit lib X S s bnorm pca
           (w\<lparr>trace := trace w @ sweep_events S scored @ [Prompted], stdin := more\<rparr>)"
      "list_all (candidate_scored lib S) scored"
proof (cases "preprocess lib (rows w) (columns w) raster numSamples bnorm pca")
  case (Inl e)
  then have "run_Kmeans lib raster numSamples bnorm pca w = (Inl e, w)"
    by (simp add: run_Kmeans_unfold)
  with Inl show ?thesis by (rule preprocess_fails)
next
  case (Inr XS)
  obtain X S where XS: "XS = (X, S)" by (cases XS)
  have pre: "preprocess lib (rows w) (columns w) raster numSamples bnorm pca = Inr (X, S)"
    using Inr XS by simp
  show ?thesis
  proof (cases rule: select_clusters_cases [of lib S w])
    case (sweep_fails e evs)
    from sweep_fails(1)
    have "run_Kmeans lib raster numSamples bnorm pca w = (Inl e, w\<lparr>trace := trace w @ evs\<rparr>)"
      using pre by (simp add: run_Kmeans_unfold)
    with pre show ?thesis using sweep_fails(2-5) by (rule that(2))
  next
    case (eof scored)
    from eof(3)
    have "run_Kmeans lib raster numSamples bnorm pca w =
        (Inl EOFError, w\<lparr>trace := trace w @ sweep_events S scored @ [Prompted]\<rparr>)"
      using pre by (simp add: run_Kmeans_unfold)
    with pre eof(1,2) show ?thesis using eof(4) by (rule that(3))
  next
    case (answered scored s more)
    from answered(3)
    have "run_Kmeans lib raster numSamples bnorm pca w =
        final_fit lib X S s bnorm pca
          (w\<lparr>trace := trace w @ sweep_events S scored @ [Prompted], stdin := more\<rparr>)"
      using pre by (simp add: run_Kmeans_unfold)
    with pre answered(1,2) show ?thesis using answered(4) by (rule that(4))
  qed
qed

lemma emitted_append [simp]: "emitted w (w\<lparr>trace := trace w @ evs\<rparr>) = evs"
  by (simp add: emitted_def)

lemma emitted_same [simp]: "emitted w w = []"
  by (simp add: emitted_def)

lemma emitted_trace: "trace w' = trace w @ evs \<Longrightarrow> emitted w w' = evs"
  by (simp add: emitted_def)

lemma sweep_events_seed:
  "KMeansFit k seed S' \<in> set (sweep_events S scored) \<Longrightarrow> seed = 10"
  by (induction scored) (auto simp: sweep_events_def)

lemma sweep_events_no_prompt: "Prompted \<notin> set (sweep_events S scored)"
  by (induction scored) (auto simp: sweep_events_def)

lemma sweep_events_no_predict: "Predicted X \<notin> set (sweep_events S scored)"
  by (induction scored) (auto simp: sweep_events_def)

lemma final_fit_extends:
  "\<exists>rest. trace (snd (final_fit lib X S s bnorm pca w)) = trace w @ rest \<and> Prompted \<notin> set rest"
  by (simp add: final_fit_unfold split: sum.splits)

lemma final_fit_result:
  assumes "py_int lib s = Inr k"
  shows "fst (final_fit lib X S s bnorm pca w) =
           (case fit_predict lib k 123 S of
              Inl e \<Rightarrow> Inl e
            | Inr (kmeans, cluster_labels) \<Rightarrow>
               (case silhouette_score lib S cluster_labels of
                  Inl e \<Rightarrow> Inl e
                | Inr silhouette \<Rightarrow>
                   (case predict lib kmeans X of
                      Inl e \<Rightarrow> Inl e
                    | Inr predCluster \<Rightarrow> np_reshape predCluster [rows w, columns w])))"
  using assms by (simp add: final_fit_unfold split: sum.splits prod.splits)

lemma prompt_needs_scores:
  assumes "Prompted \<in> set (emitted w (snd (run_Kmeans lib raster numSamples bnorm pca w)))"
  shows "\<exists>X samples scored. preprocess lib (rows w) (columns w) raster numSamples bnorm pca = Inr (X, samples) \<and>
           map fst scored = [2, 4, 6, 8, 10, 12, 14, 16, 18, 20, 22, 24, 26, 28, 30, 32] \<and>
           list_all (candidate_scored lib samples) scored"
proof (cases rule: run_Kmeans_cases [of lib w raster numSamples bnorm pca])
  case (preprocess_fails e)
  from assms preprocess_fails(2) show ?thesis by simp
next
  case (sweep_fails X S e evs)
  from assms sweep_fails(2,3) show ?thesis by simp
next
  case (eof X S scored)
  from eof(1,3,5) show ?thesis
    by (intro exI [of _ X] exI [of _ S] exI [of _ scored] conjI)
next
  case (answered X S scored s later)
  from answered(1,3,5) show ?thesis
    by (intro exI [of _ X] exI [of _ S] exI [of _ scored] conjI)
qed

lemma run_when_scored:
  assumes pre: "preprocess lib (rows w) (columns w) raster numSamples bnorm pca = Inr (X, S)"
    and ks: "map fst scored = [2, 4, 6, 8, 10, 12, 14, 16, 18, 20, 22, 24, 26, 28, 30, 32]"
    and sc: "list_all (candidate_scored lib S) scored"
  shows "\<exists>rest. emitted w (snd (run_Kmeans lib raster numSamples bnorm pca w)) = sweep_events S scored @ Prompted # rest \<and>
           Prompted \<notin> set rest"
proof (cases rule: run_Kmeans_cases [of lib w raster numSamples bnorm pca])
  case (preprocess_fails e)
  with pre show ?thesis by simp
next
  case (sweep_fails X' S' e evs)
  from sweep_fails(1) pre have "S' = S" by simp
  with sweep_fails(6) sweep_total [OF ks sc, of w] show ?thesis
    by (simp del: sweep.simps)
next
  case (eof X' S' scored')
  from eof(1) pre have S': "S' = S" by simp
  have "scored' = scored"
    using eof(3,5) ks sc unfolding S' by (intro candidate_scored_unique [of _ _ lib S]) simp_all
  with eof(4) S' show ?thesis
    by (intro exI [of _ "[]"]) simp
next
  case (answered X' S' scored' s later)
  let ?w2 = "w\<lparr>trace := trace w @ sweep_events S' scored' @ [Prompted], stdin := later\<rparr>"
  from answered(1) pre have S': "S' = S" by simp
  have same: "scored' = scored"
    using answered(3,5) ks sc unfolding S' by (intro candidate_scored_unique [of _ _ lib S]) simp_all
  obtain rest where rest: "trace (snd (final_fit lib X' S' s bnorm pca ?w2)) = trace ?w2 @ rest"
    "Prompted \<notin> set rest"
    using final_fit_extends [of lib X' S' s bnorm pca ?w2] by (elim exE conjE) (rule that; assumption)
  have "emitted w (snd (run_Kmeans lib raster numSamples bnorm pca w)) = sweep_events S scored @ Prompted # rest"
    unfolding answered(4) using rest(1) S' same by (intro emitted_trace) simp
  with rest(2) show ?thesis
    by (intro exI [of _ rest] conjI)
qed

text \<open>
  C3. The candidates are \<^verbatim>\<open>range(2, 33, 2)\<close>, that is 2, 4, ..., 32 in this order. The
  routine shows its prompt exactly when the preprocessing gives a subsample and every
  candidate \<open>k\<close> is scored on it: the K-means fit with \<open>k\<close> clusters on the subsample returns
  labels \<open>L\<close> and the silhouette score of the subsample under \<open>L\<close> returns \<open>v\<close>. In that
  case what the routine did before the prompt is, for the candidates in order, the fit,
  the score and the printed line with \<open>k\<close> and \<open>v\<close>; the prompt follows the last candidate
  and appears once.
\<close>

theorem sweep_before_prompt_C3:
  "py_range 2 33 2 = Inr [2, 4, 6, 8, 10, 12, 14, 16, 18, 20, 22, 24, 26, 28, 30, 32] \<and>
   (Prompted \<in> set (emitted w (snd (run_Kmeans lib raster numSamples bnorm pca w))) \<longleftrightarrow>
      (\<exists>X samples scored.
          preprocess lib (rows w) (columns w) raster numSamples bnorm pca = Inr (X, samples) \<and>
          map fst scored = [2, 4, 6, 8, 10, 12, 14, 16, 18, 20, 22, 24, 26, 28, 30, 32] \<and>
          list_all (candidate_scored lib samples) scored)) \<and>
   (\<forall>X samples scored.
      preprocess lib (rows w) (columns w) raster numSamples bnorm pca = Inr (X, samples) \<longrightarrow>
      map fst scored = [2, 4, 6, 8, 10, 12, 14, 16, 18, 20, 22, 24, 26, 28, 30, 32] \<longrightarrow>
      list_all (candidate_scored lib samples) scored \<longrightarrow>
      (\<exists>rest. emitted w (snd (run_Kmeans lib raster numSamples bnorm pca w)) =
                 sweep_events samples scored @ Prompted # rest \<and>
              Prompted \<notin> set rest))"
proof (intro conjI iffI allI impI)
  show "py_range 2 33 2 = Inr [2, 4, 6, 8, 10, 12, 14, 16, 18, 20, 22, 24, 26, 28, 30, 32]"
    by (rule range_n_clusters)
next
  assume "Prompted \<in> set (emitted w (snd (run_Kmeans lib raster numSamples bnorm pca w)))"
  then show "\<exists>X samples scored. preprocess lib (rows w) (columns w) raster numSamples bnorm pca = Inr (X, samples) \<and>
      map fst scored = [2, 4, 6, 8, 10, 12, 14, 16, 18, 20, 22, 24, 26, 28, 30, 32] \<and> list_all (candidate_scored lib samples) scored"
    by (rule prompt_needs_scores)
next
  assume "\<exists>X samples scored. preprocess lib (rows w) (columns w) raster numSamples bnorm pca = Inr (X, samples) \<and>
      map fst scored = [2, 4, 6, 8, 10, 12, 14, 16, 18, 20, 22, 24, 26, 28, 30, 32] \<and> list_all (candidate_scored lib samples) scored"
  then obtain X samples scored where "preprocess lib (rows w) (columns w) raster numSamples bnorm pca = Inr (X, samples)" "map fst scored = [2, 4, 6, 8, 10, 12, 14, 16, 18, 20, 22, 24, 26, 28, 30, 32]"
    "list_all (candidate_scored lib samples) scored"
    by (elim exE conjE) (rule that; assumption)
  from run_when_scored [OF this] obtain rest where
    "emitted w (snd (run_Kmeans lib raster numSamples bnorm pca w)) = sweep_events samples scored @ Prompted # rest"
    by (elim exE conjE) (rule that; assumption)
  then show "Prompted \<in> set (emitted w (snd (run_Kmeans lib raster numSamples bnorm pca w)))"
    by simp
next
  fix X samples scored
  assume "preprocess lib (rows w) (columns w) raster numSamples bnorm pca = Inr (X, samples)" "map fst scored = [2, 4, 6, 8, 10, 12, 14, 16, 18, 20, 22, 24, 26, 28, 30, 32]"
    "list_all (candidate_scored lib samples) scored"
  then show "\<exists>rest. emitted w (snd (run_Kmeans lib raster numSamples bnorm pca w)) = sweep_events samples scored @ Prompted # rest \<and>
      Prompted \<notin> set rest"
    by (rule run_when_scored)
qed

text \<open>
  C4. When the prompt is reached and \<^verbatim>\<open>int\<close> reads the entered line as \<open>k\<close>, the call
  that follows the prompt is the K-means fit with \<open>n_clusters = k\<close> on the subsample, no
  other fit follows, and what the routine returns is what this fit gives: the
  prediction, over the pixel matrix, of the model fitted with \<open>k\<close> clusters, or the
  exception of the fit, of the score or of the prediction. The scores of the sweep
  occur nowhere in it: \<open>k\<close> comes from the entered line alone.
\<close>

theorem final_fit_uses_input_C4:
  assumes "Prompted \<in> set (emitted w (snd (run_Kmeans lib raster numSamples bnorm pca w)))"
    and "stdin w = s # later" and "py_int lib s = Inr k"
  shows "\<exists>X samples scored rest.
            preprocess lib (rows w) (columns w) raster numSamples bnorm pca = Inr (X, samples) \<and>
            map fst scored = [2, 4, 6, 8, 10, 12, 14, 16, 18, 20, 22, 24, 26, 28, 30, 32] \<and>
            list_all (candidate_scored lib samples) scored \<and>
            emitted w (snd (run_Kmeans lib raster numSamples bnorm pca w)) =
              sweep_events samples scored @ [Prompted, KMeansFit k 123 samples] @ rest \<and>
            (\<forall>k' seed S'. KMeansFit k' seed S' \<notin> set rest) \<and>
            fst (run_Kmeans lib raster numSamples bnorm pca w) =
              (case fit_predict lib k 123 samples of
                 Inl e \<Rightarrow> Inl e
               | Inr (kmeans, cluster_labels) \<Rightarrow>
                  (case silhouette_score lib samples cluster_labels of
                     Inl e \<Rightarrow> Inl e
                   | Inr silhouette \<Rightarrow>
                      (case predict lib kmeans X of
                         Inl e \<Rightarrow> Inl e
                       | Inr predCluster \<Rightarrow> np_reshape predCluster [rows w, columns w])))"
proof (cases rule: run_Kmeans_cases [of lib w raster numSamples bnorm pca])
  case (preprocess_fails e)
  from assms(1) preprocess_fails(2) show ?thesis by simp
next
  case (sweep_fails X S e evs)
  from assms(1) sweep_fails(2,3) show ?thesis by simp
next
  case (eof X S scored)
  from assms(2) eof(2) show ?thesis by simp
next
  case (answered X S scored s' later')
  let ?w2 = "w\<lparr>trace := trace w @ sweep_events S scored @ [Prompted], stdin := later'\<rparr>"
  have s': "s' = s" using answered(2) assms(2) by simp
  obtain rest where rest:
    "trace (snd (final_fit lib X S s bnorm pca ?w2)) = trace ?w2 @ KMeansFit k 123 S # rest"
    "\<forall>k' seed S'. KMeansFit k' seed S' \<notin> set rest"
    using final_fit_log [OF assms(3), of X S bnorm pca ?w2]
    by (elim exE conjE) (rule that; assumption)
  have em: "emitted w (snd (run_Kmeans lib raster numSamples bnorm pca w)) =
          sweep_events S scored @ [Prompted, KMeansFit k 123 S] @ rest"
    unfolding answered(4) s' using rest(1) by (intro emitted_trace) simp
  have rc: "rows ?w2 = rows w" "columns ?w2 = columns w"
    by simp_all
  have res: "fst (run_Kmeans lib raster numSamples bnorm pca w) =
      (case fit_predict lib k 123 S of
         Inl e \<Rightarrow> Inl e
       | Inr (kmeans, cluster_labels) \<Rightarrow>
          (case silhouette_score lib S cluster_labels of
             Inl e \<Rightarrow> Inl e
           | Inr silhouette \<Rightarrow>
              (case predict lib kmeans X of
                 Inl e \<Rightarrow> Inl e
               | Inr predCluster \<Rightarrow> np_reshape predCluster [rows w, columns w])))"
    unfolding answered(4) s' final_fit_result [OF assms(3)] rc by (rule refl)
  from answered(1,3,5) em rest(2) res show ?thesis
    by (intro exI [of _ X] exI [of _ S] exI [of _ scored] exI [of _ rest] conjI)
qed

text \<open>
  C10. When \<^verbatim>\<open>int\<close> raises on the entered line, the routine ends with an exception, the
  files on disk and the metadata are what they were, and neither a final fit (the one
  with \<^verbatim>\<open>random_state=123\<close>) nor a prediction was started. If the prompt was reached, the
  exception is the one \<^verbatim>\<open>int\<close> raised and the prompt is the last thing that happened.
\<close>

theorem bad_input_no_file_C10:
  assumes "stdin w = s # later" and "py_int lib s = Inl err"
  shows "(\<exists>e. fst (run_Kmeans lib raster numSamples bnorm pca w) = Inl e) \<and>
         disk (snd (run_Kmeans lib raster numSamples bnorm pca w)) = disk w \<and>
         meta (snd (run_Kmeans lib raster numSamples bnorm pca w)) = meta w \<and>
         (\<forall>k' S'. KMeansFit k' 123 S' \<notin> set (emitted w (snd (run_Kmeans lib raster numSamples bnorm pca w)))) \<and>
         (\<forall>X'. Predicted X' \<notin> set (emitted w (snd (run_Kmeans lib raster numSamples bnorm pca w)))) \<and>
         (Prompted \<in> set (emitted w (snd (run_Kmeans lib raster numSamples bnorm pca w))) \<longrightarrow>
            fst (run_Kmeans lib raster numSamples bnorm pca w) = Inl err \<and>
            last (emitted w (snd (run_Kmeans lib raster numSamples bnorm pca w))) = Prompted)"
proof (cases rule: run_Kmeans_cases [of lib w raster numSamples bnorm pca])
  case (preprocess_fails e)
  from preprocess_fails(2) show ?thesis by simp
next
  case (sweep_fails X S e evs)
  have "KMeansFit k' 123 S' \<notin> set evs" for k' S'
    using sweep_fails(4) by fastforce
  with sweep_fails(2,3,5) show ?thesis by simp
next
  case (eof X S scored)
  from assms(1) eof(2) show ?thesis by simp
next
  case (answered X S scored s' later')
  let ?w2 = "w\<lparr>trace := trace w @ sweep_events S scored @ [Prompted], stdin := later'\<rparr>"
  have s': "s' = s" using answered(2) assms(1) by simp
  have run: "run_Kmeans lib raster numSamples bnorm pca w = (Inl err, ?w2)"
    unfolding answered(4) s' using final_fit_no_parse [OF assms(2)] by simp
  have em: "emitted w ?w2 = sweep_events S scored @ [Prompted]"
    by (intro emitted_trace) simp
  have "KMeansFit k' 123 S' \<notin> set (sweep_events S scored)" for k' S'
    using sweep_events_seed [of k' 123 S' S scored] by fastforce
  then show ?thesis
    unfolding run by (simp add: em sweep_events_no_predict)
qed

subsection \<open>What a run that returns has done\<close>

lemma contract_pca:
  assumes "library_contract lib" and "pca_fit_transform lib n X = Inr Y" and "shape X = [N, B]"
  shows "shape Y = [N, n] \<and> wf_array Y"
proof -
  from assms(1) have "\<forall>n X Y N B. pca_fit_transform lib n X = Inr Y \<longrightarrow> shape X = [N, B] \<longrightarrow>
      shape Y = [N, n] \<and> wf_array Y"
    unfolding library_contract_def by (elim conjE) assumption
  from this [rule_format, OF assms(2,3)] show ?thesis .
qed

lemma contract_fit:
  assumes "library_contract lib" and "fit_predict lib k seed S = Inr (m, L)" and "shape S = [N, B]"
  shows "1 \<le> k \<and> k \<le> int N \<and> n_clusters_of lib m = k \<and> shape L = [N] \<and> wf_array L \<and>
     (\<forall>l \<in> set (data L). 0 \<le> l \<and> l < k)"
proof -
  from assms(1) have "\<forall>k seed S m L N B. fit_predict lib k seed S = Inr (m, L) \<longrightarrow>
      shape S = [N, B] \<longrightarrow>
      1 \<le> k \<and> k \<le> int N \<and> n_clusters_of lib m = k \<and> shape L = [N] \<and> wf_array L \<and>
      (\<forall>l \<in> set (data L). 0 \<le> l \<and> l < k)"
    unfolding library_contract_def by (elim conjE) assumption
  from this [rule_format, OF assms(2,3)] show ?thesis .
qed

lemma contract_predict:
  assumes "library_contract lib" and "predict lib m X = Inr L" and "shape X = [N, B]"
  shows "shape L = [N] \<and> wf_array L \<and> (\<forall>l \<in> set (data L). 0 \<le> l \<and> l < n_clusters_of lib m)"
proof -
  from assms(1) have "\<forall>m X L N B. predict lib m X = Inr L \<longrightarrow> shape X = [N, B] \<longrightarrow>
      shape L = [N] \<and> wf_array L \<and> (\<forall>l \<in> set (data L). 0 \<le> l \<and> l < n_clusters_of lib m)"
    unfolding library_contract_def by (elim conjE) assumption
  from this [rule_format, OF assms(2,3)] show ?thesis .
qed

lemma contract_silhouette:
  assumes "library_contract lib" and "silhouette_score lib S L = Inr v"
  shows "2 \<le> length (remdups (data L)) \<and> length (remdups (data L)) < length (data L)"
proof -
  from assms(1) have "\<forall>S L v. silhouette_score lib S L = Inr v \<longrightarrow>
      2 \<le> length (remdups (data L)) \<and> length (remdups (data L)) < length (data L)"
    unfolding library_contract_def by (elim conjE) assumption
  from this [rule_format, OF assms(2)] show ?thesis .
qed

lemma preprocess_shapes:
  assumes "library_contract lib"
    and "preprocess lib nr nc raster numSamples bnorm pca = Inr (X, S)"
  shows "\<exists>m n. shape X = [nr * nc, m] \<and> shape S = [n, m]"
proof -
  from assms(2) obtain X0 X1 where
    X0: "reshape_pixels nr nc raster = Inr X0"
    and X1: "(if bnorm then apply_along_axis0 norm X0 else Inr (as_float X0)) = Inr X1"
    and X: "(if pca then bindE (shape_at X1 1) (\<lambda>n. pca_fit_transform lib n X1) else Inr X1) = Inr X"
    and S: "subsample lib X numSamples = Inr S"
    by (auto simp: preprocess_def bindE_def split: sum.splits)
  from X0 obtain B where s0: "shape X0 = [nr * nc, B]"
    by (auto simp: reshape_pixels_def bindE_def np_reshape_def split: sum.splits if_splits)
  from X1 s0 have s1: "shape X1 = [nr * nc, B]"
    by (auto simp: apply_along_axis0_def as_float_def split: if_splits)
  have "\<exists>m. shape X = [nr * nc, m]"
  proof (cases pca)
    case True
    with X s1 have "pca_fit_transform lib B X1 = Inr X"
      by (simp add: bindE_def shape_at_def)
    from contract_pca [OF assms(1) this s1] show ?thesis by simp
  next
    case False
    with X s1 show ?thesis by simp
  qed
  then obtain m where sX: "shape X = [nr * nc, m]" ..
  from S sX have "\<exists>n. shape S = [n, m]"
    by (auto simp: subsample_def bindE_def take_rows_def split: sum.splits if_splits)
  with sX show ?thesis by simp
qed

lemma run_Kmeans_success:
  assumes "fst (run_Kmeans lib raster numSamples bnorm pca w) = Inr p"
  obtains X S scored s later k m L v P where
    "preprocess lib (rows w) (columns w) raster numSamples bnorm pca = Inr (X, S)"
    "map fst scored = [2, 4, 6, 8, 10, 12, 14, 16, 18, 20, 22, 24, 26, 28, 30, 32]"
    "stdin w = s # later" "py_int lib s = Inr k"
    "fit_predict lib k 123 S = Inr (m, L)" "silhouette_score lib S L = Inr v"
    "predict lib m X = Inr P" "np_reshape P [rows w, columns w] = Inr p"
    "snd (run_Kmeans lib raster numSamples bnorm pca w) =
       w\<lparr>trace := trace w @ sweep_events S scored @
                   [Prompted, KMeansFit k 123 S, Silhouette S L, Predicted X],
         stdin := later,
         meta := (meta w)(''dtype'' \<mapsto> MStr (dtype p), ''count'' \<mapsto> MInt 1),
         disk := (disk w)(output_name s bnorm pca \<mapsto>
            \<lparr>profile = (meta w)(''dtype'' \<mapsto> MStr (dtype p), ''count'' \<mapsto> MInt 1),
             bands = [1 \<mapsto> p]\<rparr>)\<rparr>"
    "list_all (candidate_scored lib S) scored"
proof (cases rule: run_Kmeans_cases [of lib w raster numSamples bnorm pca])
  case (preprocess_fails e)
  with assms show ?thesis by simp
next
  case (sweep_fails X S e evs)
  from assms sweep_fails(2) show ?thesis by simp
next
  case (eof X S scored)
  from assms eof(4) show ?thesis by simp
next
  case (answered X S scored s later)
  let ?w2 = "w\<lparr>trace := trace w @ sweep_events S scored @ [Prompted], stdin := later\<rparr>"
  have ok: "fst (final_fit lib X S s bnorm pca ?w2) = Inr p"
    using assms unfolding answered(4) .
  from final_fit_success [OF ok] obtain k m L v P where f:
    "py_int lib s = Inr k" "fit_predict lib k 123 S = Inr (m, L)"
    "silhouette_score lib S L = Inr v" "predict lib m X = Inr P"
    "np_reshape P [rows ?w2, columns ?w2] = Inr p"
    "snd (final_fit lib X S s bnorm pca ?w2) =
       ?w2\<lparr>trace := trace ?w2 @ [KMeansFit k 123 S, Silhouette S L, Predicted X],
           meta := (meta ?w2)(''dtype'' \<mapsto> MStr (dtype p), ''count'' \<mapsto> MInt 1),
           disk := (disk ?w2)(output_name s bnorm pca \<mapsto>
              \<lparr>profile = (meta ?w2)(''dtype'' \<mapsto> MStr (dtype p), ''count'' \<mapsto> MInt 1),
               bands = [1 \<mapsto> p]\<rparr>)\<rparr>"
    by (elim exE conjE) (rule that; assumption)
  have r: "np_reshape P [rows w, columns w] = Inr p"
    using f(5) by simp
  have final: "snd (run_Kmeans lib raster numSamples bnorm pca w) =
       w\<lparr>trace := trace w @ sweep_events S scored @
                   [Prompted, KMeansFit k 123 S, Silhouette S L, Predicted X],
         stdin := later,
         meta := (meta w)(''dtype'' \<mapsto> MStr (dtype p), ''count'' \<mapsto> MInt 1),
         disk := (disk w)(output_name s bnorm pca \<mapsto>
            \<lparr>profile = (meta w)(''dtype'' \<mapsto> MStr (dtype p), ''count'' \<mapsto> MInt 1),
             bands = [1 \<mapsto> p]\<rparr>)\<rparr>"
    unfolding answered(4) f(6) by simp
  from answered(1,3,2) f(1-4) r final answered(5) show ?thesis by (rule that)
qed

lemma run_success_prompted:
  assumes "fst (run_Kmeans lib raster numSamples bnorm pca w) = Inr p"
  shows "Prompted \<in> set (emitted w (snd (run_Kmeans lib raster numSamples bnorm pca w)))"
  using assms by (rule run_Kmeans_success) (simp add: emitted_def)

lemma run_error_disk:
  assumes "fst (run_Kmeans lib raster numSamples bnorm pca w) = Inl e"
  shows "disk (snd (run_Kmeans lib raster numSamples bnorm pca w)) = disk w \<and>
         meta (snd (run_Kmeans lib raster numSamples bnorm pca w)) = meta w"
proof (cases rule: run_Kmeans_cases [of lib w raster numSamples bnorm pca])
  case (answered X S scored s later)
  let ?w2 = "w\<lparr>trace := trace w @ sweep_events S scored @ [Prompted], stdin := later\<rparr>"
  have "fst (final_fit lib X S s bnorm pca ?w2) = Inl e"
    using assms unfolding answered(4) .
  from final_fit_error [OF this] show ?thesis
    unfolding answered(4) by simp
qed (simp_all del: sweep.simps)

subsection \<open>Two runs on the small library\<close>

lemmas stub_run_defs = run_Kmeans_def select_clusters_def final_fit_def preprocess_def
  reshape_pixels_def subsample_def bindE_def shape_at_def np_reshape_def as_float_def
  take_rows_def row_def and_then_def reads_def lift_def returns_def emit_def input_line_def
  call_fit_predict_def call_silhouette_def call_predict_def update_meta_def write_raster_def
  stub_library_def stub_world_def stub_raster_def stub_labels_def py_range_def stub_int_def
  strip_def is_space_def is_digit_def digit_val_def output_name_def wf_array_def

lemma stub_run_two:
  "fst (run_Kmeans stub_library stub_raster 34 False False (stub_world [''2''])) =
     Inr \<lparr>shape = [1, 2], data = [0, 1], dtype = ''int32''\<rparr>"
  by (simp add: stub_run_defs upt_rec)

lemma stub_run_one:
  "fst (run_Kmeans stub_library stub_raster 34 False False (stub_world [''1''])) = Inl ValueError"
  by (simp add: stub_run_defs upt_rec)

subsection \<open>The sweep and the final fit on the small library\<close>

theorem sweep_before_prompt_C3_witness:
  "py_range 2 33 2 = Inr [2, 4, 6, 8, 10, 12, 14, 16, 18, 20, 22, 24, 26, 28, 30, 32] \<and>
   Prompted \<in> set (emitted (stub_world [''2'']) (snd (run_Kmeans stub_library stub_raster 34 False False (stub_world [''2''])))) \<and>
   (\<exists>X samples scored rest.
      preprocess stub_library (rows (stub_world [''2''])) (columns (stub_world [''2'']))
        stub_raster 34 False False = Inr (X, samples) \<and>
      map fst scored = [2, 4, 6, 8, 10, 12, 14, 16, 18, 20, 22, 24, 26, 28, 30, 32] \<and>
      list_all (candidate_scored stub_library samples) scored \<and>
      emitted (stub_world [''2'']) (snd (run_Kmeans stub_library stub_raster 34 False False (stub_world [''2'']))) =
        sweep_events samples scored @ Prompted # rest \<and>
      Prompted \<notin> set rest)"
proof -
  note T = sweep_before_prompt_C3 [where w = "stub_world [''2'']" and lib = stub_library
      and raster = stub_raster and numSamples = 34 and bnorm = False and pca = False]
  have P: "Prompted \<in> set (emitted (stub_world [''2'']) (snd (run_Kmeans stub_library stub_raster 34 False False (stub_world [''2'']))))"
    using stub_run_two by (rule run_success_prompted)
  from T [THEN conjunct2, THEN conjunct1] P
  have "\<exists>X samples scored. preprocess stub_library (rows (stub_world [''2''])) (columns (stub_world [''2'']))
        stub_raster 34 False False = Inr (X, samples) \<and>
      map fst scored = [2, 4, 6, 8, 10, 12, 14, 16, 18, 20, 22, 24, 26, 28, 30, 32] \<and> list_all (candidate_scored stub_library samples) scored"
    by (rule iffD1)
  then obtain X samples scored where q: "preprocess stub_library (rows (stub_world [''2''])) (columns (stub_world [''2'']))
        stub_raster 34 False False = Inr (X, samples)"
    "map fst scored = [2, 4, 6, 8, 10, 12, 14, 16, 18, 20, 22, 24, 26, 28, 30, 32]" "list_all (candidate_scored stub_library samples) scored"
    by (elim exE conjE) (rule that; assumption)
  from T [THEN conjunct2, THEN conjunct2, rule_format, OF q] obtain rest where r:
    "emitted (stub_world [''2'']) (snd (run_Kmeans stub_library stub_raster 34 False False (stub_world [''2'']))) = sweep_events samples scored @ Prompted # rest"
    "Prompted \<notin> set rest"
    by (elim exE conjE) (rule that; assumption)
  from T [THEN conjunct1] P q r show ?thesis
    by (intro conjI exI [of _ X] exI [of _ samples] exI [of _ scored] exI [of _ rest])
qed

theorem final_fit_uses_input_C4_witness:
  "\<exists>X samples scored rest.
      preprocess stub_library (rows (stub_world [''2''])) (columns (stub_world [''2'']))
        stub_raster 34 False False = Inr (X, samples) \<and>
      map fst scored = [2, 4, 6, 8, 10, 12, 14, 16, 18, 20, 22, 24, 26, 28, 30, 32] \<and>
      list_all (candidate_scored stub_library samples) scored \<and>
      emitted (stub_world [''2'']) (snd (run_Kmeans stub_library stub_raster 34 False False (stub_world [''2'']))) =
        sweep_events samples scored @ [Prompted, KMeansFit 2 123 samples] @ rest \<and>
      (\<forall>k' seed S'. KMeansFit k' seed S' \<notin> set rest) \<and>
      fst (run_Kmeans stub_library stub_raster 34 False False (stub_world [''2''])) =
        (case fit_predict stub_library 2 123 samples of
           Inl e \<Rightarrow> Inl e
         | Inr (kmeans, cluster_labels) \<Rightarrow>
            (case silhouette_score stub_library samples cluster_labels of
               Inl e \<Rightarrow> Inl e
             | Inr silhouette \<Rightarrow>
                (case predict stub_library kmeans X of
                   Inl e \<Rightarrow> Inl e
                 | Inr predCluster \<Rightarrow>
                     np_reshape predCluster
                       [rows (stub_world [''2'']), columns (stub_world [''2''])])))"
proof -
  have a: "stdin (stub_world [''2'']) = ''2'' # []"
    by (simp add: stub_world_def)
  have b: "py_int stub_library ''2'' = Inr 2"
    by (simp add: stub_library_def stub_int_def strip_def is_space_def is_digit_def digit_val_def)
  show ?thesis
    using final_fit_uses_input_C4 [OF run_success_prompted [OF stub_run_two] a b] .
qed

subsection \<open>Metadata\<close>

lemma crop_S2_value:
  assumes "shape img = [nb, h, wd]"
  shows "crop_S2 src_meta img transform w0 =
           (Inr (), w0\<lparr>meta := src_meta(''driver'' \<mapsto> MStr ''GTiff'', ''height'' \<mapsto> MInt (int h),
                                        ''width'' \<mapsto> MInt (int wd), ''transform'' \<mapsto> transform),
                        rows := h, columns := wd\<rparr>)"
  using assms
  by (simp add: crop_S2_def crop_meta_def and_then_def lift_def bindE_def shape_at_def)

lemma run_meta_frame:
  assumes "key \<noteq> ''dtype''" and "key \<noteq> ''count''"
  shows "meta (snd (run_Kmeans lib raster numSamples bnorm pca w)) key = meta w key"
proof (cases rule: run_Kmeans_cases [of lib w raster numSamples bnorm pca])
  case (answered X S scored s later)
  let ?w2 = "w\<lparr>trace := trace w @ sweep_events S scored @ [Prompted], stdin := later\<rparr>"
  from final_fit_frame [of lib X S s bnorm pca ?w2] assms
  have "meta (snd (final_fit lib X S s bnorm pca ?w2)) key = meta ?w2 key"
    by (elim conjE allE [of _ key] impE) assumption+
  then show ?thesis unfolding answered(4) by simp
qed (simp_all del: sweep.simps)

lemma run_success_meta:
  assumes "fst (run_Kmeans lib raster numSamples bnorm pca w) = Inr p"
  shows "meta (snd (run_Kmeans lib raster numSamples bnorm pca w)) =
           (meta w)(''dtype'' \<mapsto> MStr (dtype p), ''count'' \<mapsto> MInt 1) \<and>
         (\<exists>s later. stdin w = s # later \<and>
            disk (snd (run_Kmeans lib raster numSamples bnorm pca w)) =
              (disk w)(output_name s bnorm pca \<mapsto>
                 \<lparr>profile = meta (snd (run_Kmeans lib raster numSamples bnorm pca w)),
                  bands = [1 \<mapsto> p]\<rparr>))"
  using assms
proof (rule run_Kmeans_success)
  fix X S scored s later k m L v P
  assume "stdin w = s # later"
    and "snd (run_Kmeans lib raster numSamples bnorm pca w) =
       w\<lparr>trace := trace w @ sweep_events S scored @
                   [Prompted, KMeansFit k 123 S, Silhouette S L, Predicted X],
         stdin := later,
         meta := (meta w)(''dtype'' \<mapsto> MStr (dtype p), ''count'' \<mapsto> MInt 1),
         disk := (disk w)(output_name s bnorm pca \<mapsto>
            \<lparr>profile = (meta w)(''dtype'' \<mapsto> MStr (dtype p), ''count'' \<mapsto> MInt 1),
             bands = [1 \<mapsto> p]\<rparr>)\<rparr>"
  then show ?thesis
    by (intro conjI exI [of _ s] exI [of _ later]) simp_all
qed

text \<open>
  C7. Cropping the Sentinel-2 raster leaves in \<open>meta\<close> the source's metadata with
  \<open>driver\<close>, \<open>height\<close>, \<open>width\<close> and \<open>transform\<close> replaced; whatever a call of the routine
  does, it leaves every entry of \<open>meta\<close> but \<open>dtype\<close> and \<open>count\<close> as it was; and when it
  returns, \<open>meta\<close> is the one before the call with \<open>dtype\<close> set to the dtype of the
  labels and \<open>count\<close> set to 1, which is the profile of the file it wrote.
\<close>

theorem metadata_updates_C7:
  assumes "shape img = [nb, h, wd]"
  shows "crop_S2 src_meta img transform w0 =
           (Inr (), w0\<lparr>meta := src_meta(''driver'' \<mapsto> MStr ''GTiff'', ''height'' \<mapsto> MInt (int h),
                                        ''width'' \<mapsto> MInt (int wd), ''transform'' \<mapsto> transform),
                        rows := h, columns := wd\<rparr>) \<and>
         (\<forall>key. key \<noteq> ''dtype'' \<longrightarrow> key \<noteq> ''count'' \<longrightarrow>
            meta (snd (run_Kmeans lib raster numSamples bnorm pca w)) key = meta w key) \<and>
         (\<forall>p. fst (run_Kmeans lib raster numSamples bnorm pca w) = Inr p \<longrightarrow>
            meta (snd (run_Kmeans lib raster numSamples bnorm pca w)) =
              (meta w)(''dtype'' \<mapsto> MStr (dtype p), ''count'' \<mapsto> MInt 1) \<and>
            (\<exists>s later. stdin w = s # later \<and>
               disk (snd (run_Kmeans lib raster numSamples bnorm pca w)) =
                 (disk w)(output_name s bnorm pca \<mapsto>
                    \<lparr>profile = meta (snd (run_Kmeans lib raster numSamples bnorm pca w)),
                     bands = [1 \<mapsto> p]\<rparr>)))"
proof (intro conjI allI impI)
  show "crop_S2 src_meta img transform w0 =
           (Inr (), w0\<lparr>meta := src_meta(''driver'' \<mapsto> MStr ''GTiff'', ''height'' \<mapsto> MInt (int h),
                                        ''width'' \<mapsto> MInt (int wd), ''transform'' \<mapsto> transform),
                        rows := h, columns := wd\<rparr>)"
    using assms by (rule crop_S2_value)
next
  fix key :: string
  assume "key \<noteq> ''dtype''" and "key \<noteq> ''count''"
  then show "meta (snd (run_Kmeans lib raster numSamples bnorm pca w)) key = meta w key"
    by (rule run_meta_frame)
next
  fix p
  assume ok: "fst (run_Kmeans lib raster numSamples bnorm pca w) = Inr p"
  from run_success_meta [OF ok]
  show "meta (snd (run_Kmeans lib raster numSamples bnorm pca w)) =
          (meta w)(''dtype'' \<mapsto> MStr (dtype p), ''count'' \<mapsto> MInt 1)"
    by (rule conjunct1)
  from run_success_meta [OF ok]
  show "\<exists>s later. stdin w = s # later \<and>
          disk (snd (run_Kmeans lib raster numSamples bnorm pca w)) =
            (disk w)(output_name s bnorm pca \<mapsto>
               \<lparr>profile = meta (snd (run_Kmeans lib raster numSamples bnorm pca w)),
                bands = [1 \<mapsto> p]\<rparr>)"
    by (rule conjunct2)
qed

theorem metadata_updates_C7_witness:
  "crop_S2 [''driver'' \<mapsto> MStr ''JP2OpenJPEG''] \<lparr>shape = [1, 1, 2], data = [1, 2]\<rparr>
      (MAffine [40, 0, 0, 0, - 40, 0]) (stub_world []) =
     (Inr (), (stub_world [])\<lparr>meta := [''driver'' \<mapsto> MStr ''JP2OpenJPEG'']
                                  (''driver'' \<mapsto> MStr ''GTiff'', ''height'' \<mapsto> MInt (int 1),
                                   ''width'' \<mapsto> MInt (int 2),
                                   ''transform'' \<mapsto> MAffine [40, 0, 0, 0, - 40, 0]),
                                rows := 1, columns := 2\<rparr>) \<and>
   meta (snd (run_Kmeans stub_library stub_raster 34 False False (stub_world [''2''])))
     ''driver'' = meta (stub_world [''2'']) ''driver'' \<and>
   meta (snd (run_Kmeans stub_library stub_raster 34 False False (stub_world [''2'']))) =
     (meta (stub_world [''2'']))
       (''dtype'' \<mapsto> MStr (dtype \<lparr>shape = [1, 2], data = [0, 1], dtype = ''int32''\<rparr>),
        ''count'' \<mapsto> MInt 1) \<and>
   (\<exists>s later. stdin (stub_world [''2'']) = s # later \<and>
      disk (snd (run_Kmeans stub_library stub_raster 34 False False (stub_world [''2'']))) =
        (disk (stub_world [''2'']))(output_name s False False \<mapsto>
           \<lparr>profile = meta (snd (run_Kmeans stub_library stub_raster 34 False False
                                (stub_world [''2'']))),
            bands = [1 \<mapsto> \<lparr>shape = [1, 2], data = [0, 1], dtype = ''int32''\<rparr>]\<rparr>))"
proof -
  have sh: "shape \<lparr>shape = [1, 1, 2], data = [1, 2 :: real]\<rparr> = [1, 1, 2]"
    by simp
  note T = metadata_updates_C7 [OF sh, of "[''driver'' \<mapsto> MStr ''JP2OpenJPEG'']"
      "MAffine [40, 0, 0, 0, - 40, 0]" "stub_world []" stub_library stub_raster 34 False False
      "stub_world [''2'']"]
  have k1: "''driver'' \<noteq> ''dtype''" and k2: "''driver'' \<noteq> ''count''"
    by simp_all
  from T [THEN conjunct1] T [THEN conjunct2, THEN conjunct1, rule_format, OF k1 k2]
    T [THEN conjunct2, THEN conjunct2, rule_format, OF stub_run_two]
  show ?thesis by (intro conjI) (erule conjunct1 conjunct2 | assumption)+
qed

subsection \<open>The labelled raster\<close>

lemma distinct_labels_bound:
  fixes k :: int
  assumes "\<forall>l \<in> set xs. 0 \<le> l \<and> l < k"
  shows "int (length (remdups xs)) \<le> k \<or> xs = []"
proof (cases "xs = []")
  case False
  then obtain x where "x \<in> set xs" by (cases xs) auto
  with assms have kpos: "0 < k" by force
  have "set xs \<subseteq> {0..<k}" using assms by auto
  then have "card (set xs) \<le> card {0..<k}"
    by (intro card_mono) simp_all
  also have "\<dots> = nat k" by simp
  finally have "length (remdups xs) \<le> nat k"
    by (simp add: length_remdups_card_conv)
  with kpos have "int (length (remdups xs)) \<le> k" by linarith
  then show ?thesis by (rule disjI1)
qed simp

lemma preprocess_raw_pixels:
  assumes "\<not> bnorm" and "\<not> pca"
    and "preprocess lib nr nc raster numSamples bnorm pca = Inr (X, S)"
    and "shape raster = [nr, nc, B]"
  shows "\<forall>i<nr. \<forall>j<nc. \<forall>b<B. \<exists>v. at3 raster i j b = Inr v \<and> at2 X (i * nc + j) b = Inr (Fin v)"
proof (intro allI impI)
  fix i j b
  assume i: "i < nr" and j: "j < nc" and b: "b < B"
  from assms obtain X0 where X0: "reshape_pixels nr nc raster = Inr X0" and X: "X = as_float X0"
    by (auto simp: preprocess_def bindE_def split: sum.splits)
  from X0 assms(4) have len: "length (data raster) = nr * nc * B"
    and X0v: "X0 = raster\<lparr>shape := [nr * nc, B]\<rparr>"
    by (auto simp: reshape_pixels_def bindE_def shape_at_def np_reshape_def split: if_splits)
  have "i * nc + j < nr * nc" using i j by (rule flat_index_bound)
  then have row: "i * nc + j < nr * nc" and cell: "(i * nc + j) * B + b < nr * nc * B"
    using b by (simp_all add: flat_index_bound)
  have "at3 raster i j b = Inr (data raster ! ((i * nc + j) * B + b))"
    using assms(4) i j b by (simp add: at3_def)
  moreover have "at2 X (i * nc + j) b = Inr (Fin (data raster ! ((i * nc + j) * B + b)))"
    using row b cell len by (simp add: X X0v as_float_def at2_def)
  ultimately show "\<exists>v. at3 raster i j b = Inr v \<and> at2 X (i * nc + j) b = Inr (Fin v)"
    by simp
qed

lemma returned_run_facts:
  assumes "library_contract lib" and "stdin w = s # later"
    and "fst (run_Kmeans lib raster numSamples bnorm pca w) = Inr p"
  shows "\<exists>k X samples kmeans cluster_labels P n.
           py_int lib s = Inr k \<and> 2 \<le> k \<and>
           preprocess lib (rows w) (columns w) raster numSamples bnorm pca = Inr (X, samples) \<and>
           shape X = [rows w * columns w, n] \<and>
           fit_predict lib k 123 samples = Inr (kmeans, cluster_labels) \<and>
           predict lib kmeans X = Inr P \<and> shape P = [rows w * columns w] \<and>
           Predicted X \<in> set (emitted w (snd (run_Kmeans lib raster numSamples bnorm pca w))) \<and>
           np_reshape P [rows w, columns w] = Inr p \<and>
           shape p = [rows w, columns w] \<and> length (data p) = rows w * columns w \<and>
           (\<forall>i<rows w. \<forall>j<columns w. at2 p i j = Inr (data P ! (i * columns w + j))) \<and>
           (\<forall>l \<in> set (data p). 0 \<le> l \<and> l < k)"
  using assms(3)
proof (rule run_Kmeans_success)
  fix X S scored s' later' k m L v P
  assume pre: "preprocess lib (rows w) (columns w) raster numSamples bnorm pca = Inr (X, S)"
    and inp: "stdin w = s' # later'" and k: "py_int lib s' = Inr k"
    and fit: "fit_predict lib k 123 S = Inr (m, L)"
    and sil: "silhouette_score lib S L = Inr v"
    and prd: "predict lib m X = Inr P"
    and rsh: "np_reshape P [rows w, columns w] = Inr p"
    and fin: "snd (run_Kmeans lib raster numSamples bnorm pca w) =
       w\<lparr>trace := trace w @ sweep_events S scored @
                   [Prompted, KMeansFit k 123 S, Silhouette S L, Predicted X],
         stdin := later',
         meta := (meta w)(''dtype'' \<mapsto> MStr (dtype p), ''count'' \<mapsto> MInt 1),
         disk := (disk w)(output_name s' bnorm pca \<mapsto>
            \<lparr>profile = (meta w)(''dtype'' \<mapsto> MStr (dtype p), ''count'' \<mapsto> MInt 1),
             bands = [1 \<mapsto> p]\<rparr>)\<rparr>"
  have s': "s' = s" using inp assms(2) by simp
  obtain n n' where sX: "shape X = [rows w * columns w, n]" and sS: "shape S = [n', n]"
    using preprocess_shapes [OF assms(1) pre] by (elim exE conjE) (rule that; assumption)
  note F = contract_fit [OF assms(1) fit sS]
  note Si = contract_silhouette [OF assms(1) sil]
  note Pr = contract_predict [OF assms(1) prd sX]
  have km: "n_clusters_of lib m = k" using F by simp
  have Lrange: "\<forall>l \<in> set (data L). 0 \<le> l \<and> l < k" using F by simp
  have "data L \<noteq> []" using Si by auto
  with distinct_labels_bound [OF Lrange] have "int (length (remdups (data L))) \<le> k" by simp
  with Si have k2: "2 \<le> k" by simp
  have p: "p = P\<lparr>shape := [rows w, columns w]\<rparr>"
    using rsh by (simp add: np_reshape_def split: if_splits)
  have sP: "shape P = [rows w * columns w]"
    using Pr by simp
  have lenP: "length (data P) = rows w * columns w"
    using Pr by (simp add: wf_array_def)
  have Prange: "\<forall>l \<in> set (data P). 0 \<le> l \<and> l < k"
    using Pr km by simp
  have ev: "Predicted X \<in> set (emitted w (snd (run_Kmeans lib raster numSamples bnorm pca w)))"
    unfolding fin by (simp add: emitted_def)
  have k': "py_int lib s = Inr k" using k s' by simp
  have c1: "shape p = [rows w, columns w]" and c2: "length (data p) = rows w * columns w"
    and c4: "\<forall>l \<in> set (data p). 0 \<le> l \<and> l < k"
    using p lenP Prange by simp_all
  have c3: "\<forall>i<rows w. \<forall>j<columns w. at2 p i j = Inr (data P ! (i * columns w + j))"
    using p by (simp add: at2_def)
  from k' k2 pre sX fit prd sP ev rsh c1 c2 c3 c4 show ?thesis
    by (intro exI [of _ k] exI [of _ X] exI [of _ S] exI [of _ m] exI [of _ L] exI [of _ P]
        exI [of _ n] conjI)
qed

text \<open>
  C5, as the code has it. Take a raster of shape \<open>(R, C, B)\<close> with the globals \<open>rows\<close> and
  \<open>columns\<close> equal to \<open>R\<close> and \<open>C\<close>, and libraries that meet their contract. Whenever the
  routine returns, the entered line is an integer \<open>k\<close> with \<open>k \<ge> 2\<close> (the silhouette score
  taken after the last fit refuses a single cluster). The model fitted with \<open>k\<close> clusters
  on the subsample has predicted on the whole pixel matrix \<open>X\<close> of the preprocessing,
  which has \<open>R * C\<close> rows (without normalisation and PCA, row \<open>i * C + j\<close> of \<open>X\<close> is pixel
  \<open>(i, j)\<close> of the raster), and has given one label per row. The returned array has
  shape \<open>(R, C)\<close>, its entry \<open>(i, j)\<close> is the label predicted for row \<open>i * C + j\<close>, its
  entries are in \<open>{0, ..., k - 1}\<close>, and the file of the computed name holds this array as
  its band 1 under a profile whose \<open>count\<close> is 1.
\<close>

theorem labelled_raster_C5:
  assumes "library_contract lib" and "shape raster = [R, C, B]"
    and "rows w = R" and "columns w = C" and "stdin w = s # later"
    and "fst (run_Kmeans lib raster numSamples bnorm pca w) = Inr predCluster"
  shows "\<exists>k X samples kmeans cluster_labels P n.
           py_int lib s = Inr k \<and> 2 \<le> k \<and>
           preprocess lib R C raster numSamples bnorm pca = Inr (X, samples) \<and>
           shape X = [R * C, n] \<and>
           (\<not> bnorm \<and> \<not> pca \<longrightarrow>
              (\<forall>i<R. \<forall>j<C. \<forall>b<B. \<exists>v. at3 raster i j b = Inr v \<and>
                  at2 X (i * C + j) b = Inr (Fin v))) \<and>
           fit_predict lib k 123 samples = Inr (kmeans, cluster_labels) \<and>
           predict lib kmeans X = Inr P \<and> shape P = [R * C] \<and>
           Predicted X \<in> set (emitted w (snd (run_Kmeans lib raster numSamples bnorm pca w))) \<and>
           np_reshape P [R, C] = Inr predCluster \<and>
           shape predCluster = [R, C] \<and> length (data predCluster) = R * C \<and>
           (\<forall>i<R. \<forall>j<C. at2 predCluster i j = Inr (data P ! (i * C + j))) \<and>
           (\<forall>l \<in> set (data predCluster). 0 \<le> l \<and> l < k) \<and>
           disk (snd (run_Kmeans lib raster numSamples bnorm pca w)) =
             (disk w)(output_name s bnorm pca \<mapsto>
                \<lparr>profile = meta (snd (run_Kmeans lib raster numSamples bnorm pca w)),
                 bands = [1 \<mapsto> predCluster]\<rparr>) \<and>
           meta (snd (run_Kmeans lib raster numSamples bnorm pca w)) ''count'' = Some (MInt 1)"
proof -
  obtain k X samples kmeans cluster_labels P n where f:
    "py_int lib s = Inr k" "2 \<le> k"
    "preprocess lib (rows w) (columns w) raster numSamples bnorm pca = Inr (X, samples)"
    "shape X = [rows w * columns w, n]"
    "fit_predict lib k 123 samples = Inr (kmeans, cluster_labels)"
    "predict lib kmeans X = Inr P" "shape P = [rows w * columns w]"
    "Predicted X \<in> set (emitted w (snd (run_Kmeans lib raster numSamples bnorm pca w)))"
    "np_reshape P [rows w, columns w] = Inr predCluster"
    "shape predCluster = [rows w, columns w]"
    "length (data predCluster) = rows w * columns w"
    "\<forall>i<rows w. \<forall>j<columns w. at2 predCluster i j = Inr (data P ! (i * columns w + j))"
    "\<forall>l \<in> set (data predCluster). 0 \<le> l \<and> l < k"
    using returned_run_facts [OF assms(1,5,6)] by (elim exE conjE) (rule that; assumption)
  from run_success_meta [OF assms(6)] obtain s' later' where m:
    "meta (snd (run_Kmeans lib raster numSamples bnorm pca w)) =
       (meta w)(''dtype'' \<mapsto> MStr (dtype predCluster), ''count'' \<mapsto> MInt 1)"
    "stdin w = s' # later'"
    "disk (snd (run_Kmeans lib raster numSamples bnorm pca w)) =
       (disk w)(output_name s' bnorm pca \<mapsto>
          \<lparr>profile = meta (snd (run_Kmeans lib raster numSamples bnorm pca w)),
           bands = [1 \<mapsto> predCluster]\<rparr>)"
    by (elim exE conjE) (rule that; assumption)
  have s': "s' = s" using m(2) assms(5) by simp
  have cnt: "meta (snd (run_Kmeans lib raster numSamples bnorm pca w)) ''count'' = Some (MInt 1)"
    unfolding m(1) by simp
  have raw: "\<not> bnorm \<and> \<not> pca \<longrightarrow>
      (\<forall>i<R. \<forall>j<C. \<forall>b<B. \<exists>v. at3 raster i j b = Inr v \<and> at2 X (i * C + j) b = Inr (Fin v))"
  proof
    assume "\<not> bnorm \<and> \<not> pca"
    then have nb: "\<not> bnorm" and np: "\<not> pca" by simp_all
    from f(3) have pre: "preprocess lib R C raster numSamples bnorm pca = Inr (X, samples)"
      unfolding assms(3,4) .
    from preprocess_raw_pixels [OF nb np pre assms(2)]
    show "\<forall>i<R. \<forall>j<C. \<forall>b<B. \<exists>v. at3 raster i j b = Inr v \<and> at2 X (i * C + j) b = Inr (Fin v)" .
  qed
  from f(1,2) f(3) [unfolded assms(3,4)] f(4) [unfolded assms(3,4)] raw f(5,6)
    f(7) [unfolded assms(3,4)] f(8) f(9) [unfolded assms(3,4)] f(10) [unfolded assms(3,4)]
    f(11) [unfolded assms(3,4)] f(12) [unfolded assms(3,4)] f(13) m(3) [unfolded s'] cnt
  show ?thesis
    by (intro exI [of _ k] exI [of _ X] exI [of _ samples] exI [of _ kmeans]
        exI [of _ cluster_labels] exI [of _ P] exI [of _ n] conjI)
qed

theorem labelled_raster_C5_witness:
  "\<exists>k X samples kmeans cluster_labels P n.
     py_int stub_library ''2'' = Inr k \<and> 2 \<le> k \<and>
     preprocess stub_library 1 2 stub_raster 34 False False = Inr (X, samples) \<and>
     shape X = [1 * 2, n] \<and>
     (\<not> False \<and> \<not> False \<longrightarrow>
        (\<forall>i<1. \<forall>j<2. \<forall>b<1. \<exists>v. at3 stub_raster i j b = Inr v \<and>
            at2 X (i * 2 + j) b = Inr (Fin v))) \<and>
     fit_predict stub_library k 123 samples = Inr (kmeans, cluster_labels) \<and>
     predict stub_library kmeans X = Inr P \<and> shape P = [1 * 2] \<and>
     Predicted X \<in> set (emitted (stub_world [''2'']) (snd (run_Kmeans stub_library stub_raster 34 False False (stub_world [''2''])))) \<and>
     np_reshape P [1, 2] = Inr \<lparr>shape = [1, 2], data = [0, 1], dtype = ''int32''\<rparr> \<and>
     shape \<lparr>shape = [1, 2], data = [0, 1], dtype = ''int32''\<rparr> = [1, 2] \<and>
     length (data \<lparr>shape = [1, 2], data = [0, 1], dtype = ''int32''\<rparr>) = 1 * 2 \<and>
     (\<forall>i<1. \<forall>j<2. at2 \<lparr>shape = [1, 2], data = [0, 1], dtype = ''int32''\<rparr> i j
          = Inr (data P ! (i * 2 + j))) \<and>
     (\<forall>l \<in> set (data \<lparr>shape = [1, 2], data = [0, 1], dtype = ''int32''\<rparr>). 0 \<le> l \<and> l < k) \<and>
     disk (snd (run_Kmeans stub_library stub_raster 34 False False (stub_world [''2'']))) =
       (disk (stub_world [''2'']))(output_name ''2'' False False \<mapsto>
          \<lparr>profile = meta (snd (run_Kmeans stub_library stub_raster 34 False False (stub_world [''2'']))),
           bands = [1 \<mapsto> \<lparr>shape = [1, 2], data = [0, 1], dtype = ''int32''\<rparr>]\<rparr>) \<and>
     meta (snd (run_Kmeans stub_library stub_raster 34 False False (stub_world [''2'']))) ''count'' = Some (MInt 1)"
proof -
  have sh: "shape stub_raster = [1, 2, 1]" by (simp add: stub_raster_def)
  have r: "rows (stub_world [''2'']) = 1" and c: "columns (stub_world [''2'']) = 2"
    and inp: "stdin (stub_world [''2'']) = ''2'' # []"
    by (simp_all add: stub_world_def)
  show ?thesis
    using labelled_raster_C5 [OF stub_library_contract sh r c inp stub_run_two] by simp
qed

lemma single_cluster_fails:
  assumes "library_contract lib" and "stdin w = s # later" and "py_int lib s = Inr 1"
  shows "\<exists>e. fst (run_Kmeans lib raster numSamples bnorm pca w) = Inl e"
proof (cases "fst (run_Kmeans lib raster numSamples bnorm pca w)")
  case (Inl e)
  then show ?thesis by simp
next
  case (Inr p)
  from returned_run_facts [OF assms(1,2) Inr] obtain k where "py_int lib s = Inr k" "2 \<le> k"
    by (elim exE conjE) (rule that; assumption)
  with assms(3) show ?thesis by simp
qed

text \<open>
  C5 as stated fails for \<open>k = 1\<close>: with one cluster every sample gets label 0, the
  silhouette score that the routine takes right after the last fit raises, and the
  routine ends there, before the prediction and with no file written. This is so for
  every library that meets the contract (\<open>single_cluster_fails\<close>); here it is on the small
  library, a raster of two pixels and the entered line \<^verbatim>\<open>1\<close>.
\<close>

theorem single_cluster_C5_counterexample:
  "library_contract stub_library \<and> shape stub_raster = [1, 2, 1] \<and>
   rows (stub_world [''1'']) = 1 \<and> columns (stub_world [''1'']) = 2 \<and>
   stdin (stub_world [''1'']) = [''1''] \<and> py_int stub_library ''1'' = Inr 1 \<and>
   fst (run_Kmeans stub_library stub_raster 34 False False (stub_world [''1''])) = Inl ValueError \<and>
   disk (snd (run_Kmeans stub_library stub_raster 34 False False (stub_world [''1''])))
     = Map.empty"
proof -
  have "disk (snd (run_Kmeans stub_library stub_raster 34 False False (stub_world [''1''])))
          = disk (stub_world [''1''])"
    using run_error_disk [OF stub_run_one] by (rule conjunct1)
  moreover have "py_int stub_library ''1'' = Inr 1"
    by (simp add: stub_library_def stub_int_def strip_def is_space_def is_digit_def digit_val_def)
  ultimately show ?thesis
    using stub_library_contract stub_run_one by (simp add: stub_world_def stub_raster_def)
qed

lemma stub_run_unparsed:
  "Prompted \<in> set (emitted (stub_world [''two''])
      (snd (run_Kmeans stub_library stub_raster 34 False False (stub_world [''two'']))))"
  by (simp add: stub_run_defs emitted_def upt_rec)

theorem bad_input_no_file_C10_witness:
  "(\<exists>e. fst (run_Kmeans stub_library stub_raster 34 False False (stub_world [''two''])) = Inl e) \<and>
   disk (snd (run_Kmeans stub_library stub_raster 34 False False (stub_world [''two'']))) = disk (stub_world [''two'']) \<and>
   meta (snd (run_Kmeans stub_library stub_raster 34 False False (stub_world [''two'']))) = meta (stub_world [''two'']) \<and>
   (\<forall>k' S'. KMeansFit k' 123 S' \<notin> set (emitted (stub_world [''two'']) (snd (run_Kmeans stub_library stub_raster 34 False False (stub_world [''two'']))))) \<and>
   (\<forall>X'. Predicted X' \<notin> set (emitted (stub_world [''two'']) (snd (run_Kmeans stub_library stub_raster 34 False False (stub_world [''two'']))))) \<and>
   fst (run_Kmeans stub_library stub_raster 34 False False (stub_world [''two''])) = Inl ValueError \<and>
   last (emitted (stub_world [''two'']) (snd (run_Kmeans stub_library stub_raster 34 False False (stub_world [''two''])))) = Prompted"
proof -
  have a: "stdin (stub_world [''two'']) = ''two'' # []"
    by (simp add: stub_world_def)
  have b: "py_int stub_library ''two'' = Inl ValueError"
    by (simp add: stub_library_def stub_int_def strip_def is_space_def is_digit_def)
  note T = bad_input_no_file_C10 [OF a b, where raster = stub_raster and numSamples = 34
      and bnorm = False and pca = False]
  note t1 = T [THEN conjunct1]
  note t2 = T [THEN conjunct2, THEN conjunct1]
  note t3 = T [THEN conjunct2, THEN conjunct2, THEN conjunct1]
  note t4 = T [THEN conjunct2, THEN conjunct2, THEN conjunct2, THEN conjunct1]
  note t5 = T [THEN conjunct2, THEN conjunct2, THEN conjunct2, THEN conjunct2, THEN conjunct1]
  note t6 = T [THEN conjunct2, THEN conjunct2, THEN conjunct2, THEN conjunct2, THEN conjunct2,
      rule_format, OF stub_run_unparsed]
  from t1 t2 t3 t4 t5 t6 [THEN conjunct1] t6 [THEN conjunct2] show ?thesis
    by (intro conjI)
qed

subsection \<open>The globals the script hands to the routine\<close>

lemma analysis_sets_globals:
  assumes "shape img = [B2, R, C]" and "shape img2 = [B1, R, C]" and "8 < C"
  shows "\<exists>raster w'. analysis src_meta img transform img2 w = (Inr raster, w') \<and>
           shape raster = [R, C, B2 + B1] \<and> rows w' = R \<and> columns w' = C \<and>
           trace w' = trace w \<and> stdin w' = stdin w \<and> disk w' = disk w"
  using crop_S2_value [OF assms(1), of src_meta transform w] stack_bands_value [OF assms]
  by (simp add: analysis_def and_then_def lift_def)

end
